theory Spec2Isabelle
  imports Main "HOL-Library.List_Lexorder" "HOL-Library.Char_ord"
begin

unbundle bit_operations_syntax

section \<open>Object model (staging/src/k8s.io/api/certificates/v1alpha1/types.go)\<close>

text \<open>
  Go strings are byte strings and are modelled as \<^typ>\<open>string\<close>. A \<open>time.Time\<close> is an
  integer count of nanoseconds measured from Go's zero instant, so that the zero value of
  the type is \<open>0\<close>; a \<open>time.Duration\<close> is an integer count of nanoseconds as in Go.
  \<open>int64\<close> generations are only copied and compared, and are modelled as \<^typ>\<open>int\<close>.
\<close>

type_synonym time = int
type_synonym duration = int

definition zeroTime :: time where
  "zeroTime = 0"

definition Second :: duration where
  "Second = 1000000000"

definition Minute :: duration where
  "Minute = 60 * Second"

definition Hour :: duration where
  "Hour = 60 * Minute"

definition time_Add :: "time \<Rightarrow> duration \<Rightarrow> time" where
  "time_Add t d = t + d"

definition time_After :: "time \<Rightarrow> time \<Rightarrow> bool" where
  "time_After t u = (u < t)"

text \<open>The part of \<open>metav1.ObjectMeta\<close> that the code reads or writes. A nil annotation map
  and an empty one read alike, both are \<^term>\<open>Map.empty\<close>.\<close>

record ObjectMeta =
  Name :: string
  Namespace :: string
  Generation :: int
  ResourceVersion :: string
  Annotations :: "string \<rightharpoonup> string"
  Labels :: "string \<rightharpoonup> string"

record ClusterTrustBundleSpec =
  ctbSignerName :: string
  TrustBundle :: string

record ClusterTrustBundle =
  ctbObjectMeta :: ObjectMeta
  ctbSpec :: ClusterTrustBundleSpec

record WorkloadCertificateSpec =
  SignerName :: string
  ServiceAccount :: string
  Pod :: string
  PodUID :: string
  Node :: string
  Requester :: string
  PublicKey :: string

text \<open>\<open>WorkloadCertificateConditionType\<close> and \<open>corev1.ConditionStatus\<close> are string types.\<close>

definition WorkloadCertificateFailed :: string where
  "WorkloadCertificateFailed = ''Failed''"

definition WorkloadCertificatePending :: string where
  "WorkloadCertificatePending = ''Pending''"

definition ConditionTrue :: string where
  "ConditionTrue = ''True''"

definition ConditionFalse :: string where
  "ConditionFalse = ''False''"

definition ConditionUnknown :: string where
  "ConditionUnknown = ''Unknown''"

record WorkloadCertificateCondition =
  Type :: string
  Status :: string
  Reason :: string
  Message :: string
  ObservedGeneration :: int
  LastUpdateTime :: time
  LastTransitionTime :: time

record WorkloadCertificateStatus =
  Conditions :: "WorkloadCertificateCondition list"
  Certificate :: string
  CertificateObservedGeneration :: int
  NotBefore :: time
  NotAfter :: time
  BeginRefreshAt :: time

record WorkloadCertificate =
  wcObjectMeta :: ObjectMeta
  Spec :: WorkloadCertificateSpec
  wcStatus :: WorkloadCertificateStatus

definition DefaultWorkloadCertificateSignerName :: string where
  "DefaultWorkloadCertificateSignerName = ''kubernetes.io/default-workload-certificate''"

text \<open>\<open>certsv1.KubeAPIServerClientSignerName\<close>, named in section 6 of the specification.\<close>

definition KubeAPIServerClientSignerName :: string where
  "KubeAPIServerClientSignerName = ''kubernetes.io/kube-apiserver-client''"

section \<open>Registry strategy of WorkloadCertificates (pkg/registry/certificates/workloadcertificate/strategy.go)\<close>

text \<open>\<open>strategy.PrepareForUpdate\<close> of the main resource has an empty body.\<close>

definition strategy_PrepareForUpdate :: "WorkloadCertificate \<Rightarrow> WorkloadCertificate \<Rightarrow> WorkloadCertificate" where
  "strategy_PrepareForUpdate new old = new"

text \<open>\<open>statusStrategy.PrepareForUpdate\<close>: \<open>newWC.Spec = oldWC.Spec\<close>. The function mutates
  the new object in place; the model returns it.\<close>

definition statusStrategy_PrepareForUpdate :: "WorkloadCertificate \<Rightarrow> WorkloadCertificate \<Rightarrow> WorkloadCertificate" where
  "statusStrategy_PrepareForUpdate newWC oldWC = newWC\<lparr>Spec := Spec oldWC\<rparr>"

text \<open>\<open>statusStrategy.Canonicalize\<close> has an empty body.\<close>

definition statusStrategy_Canonicalize :: "WorkloadCertificate \<Rightarrow> WorkloadCertificate" where
  "statusStrategy_Canonicalize obj = obj"

section \<open>Errors and formatting\<close>

text \<open>
  A Go \<open>error\<close> is a value. Three kinds are told apart by the code: the API machinery's
  not-found status (\<open>k8serrors.IsNotFound\<close>), the forbidden status built by
  \<open>admission.NewForbidden\<close>, and every other error (\<open>fmt.Errorf\<close>, \<open>errors.New\<close>),
  each with its message.
\<close>

datatype error = StatusNotFound string | StatusForbidden string | Errorf string

fun Error :: "error \<Rightarrow> string" where
  "Error (StatusNotFound m) = m"
| "Error (StatusForbidden m) = m"
| "Error (Errorf m) = m"

fun IsNotFound :: "error \<Rightarrow> bool" where
  "IsNotFound (StatusNotFound m) = True"
| "IsNotFound (StatusForbidden m) = False"
| "IsNotFound (Errorf m) = False"

text \<open>The verb \<open>%d\<close> of \<open>fmt\<close> on a length.\<close>

fun decimal :: "nat \<Rightarrow> string" where
  "decimal n =
     (if n < 10 then [char_of (48 + n)]
      else decimal (n div 10) @ [char_of (48 + n mod 10)])"

declare decimal.simps [simp del]

section \<open>PEM blocks (encoding/pem)\<close>

text \<open>
  \<open>pem.Block\<close>. The codec itself belongs to the Go standard library: the functions of the
  repository take \<open>pem.Decode\<close> and \<open>pem.EncodeToMemory\<close> as parameters. \<open>pem.Decode\<close>
  returns the first block found and the rest of the input, or no block and the input.
\<close>

record pem_Block =
  pemType :: string
  pemHeaders :: "(string \<times> string) list"
  pemBytes :: string

type_synonym pem_Decode = "string \<Rightarrow> pem_Block option \<times> string"
type_synonym pem_EncodeToMemory = "pem_Block \<Rightarrow> string"

section \<open>The Go standard library: bytes, encoding/base64, encoding/pem\<close>

text \<open>
  The functions of the repository that read and write PEM call \<open>pem.Decode\<close> and
  \<open>pem.EncodeToMemory\<close> of the Go standard library. This section is a model of the two
  functions and of what they call, byte for byte, for the inputs at which the repository's
  functions are evaluated below. A byte slice is a \<^typ>\<open>string\<close>.
\<close>

definition newline :: char where
  "newline = CHR 0x0A"

definition carriageReturn :: char where
  "carriageReturn = CHR 0x0D"

definition tab :: char where
  "tab = CHR 0x09"

definition HasPrefix :: "string \<Rightarrow> string \<Rightarrow> bool" where
  "HasPrefix s pre = (take (length pre) s = pre)"

definition HasSuffix :: "string \<Rightarrow> string \<Rightarrow> bool" where
  "HasSuffix s suf = (length suf \<le> length s \<and> drop (length s - length suf) s = suf)"

text \<open>\<open>bytes.IndexByte\<close> and \<open>bytes.Index\<close>: the index of the first occurrence, if any.\<close>

fun bytes_IndexByte :: "string \<Rightarrow> char \<Rightarrow> nat option" where
  "bytes_IndexByte [] c = None"
| "bytes_IndexByte (x # s) c = (if x = c then Some 0 else map_option Suc (bytes_IndexByte s c))"

fun bytes_Index :: "string \<Rightarrow> string \<Rightarrow> nat option" where
  "bytes_Index [] sep = (if sep = [] then Some 0 else None)"
| "bytes_Index (x # s) sep =
     (if HasPrefix (x # s) sep then Some 0 else map_option Suc (bytes_Index s sep))"

text \<open>\<open>bytes.Cut\<close>: the text before and after the first occurrence of the separator.\<close>

definition bytes_Cut :: "string \<Rightarrow> string \<Rightarrow> (string \<times> string) option" where
  "bytes_Cut s sep =
     (case bytes_Index s sep of
        None \<Rightarrow> None
      | Some i \<Rightarrow> Some (take i s, drop (i + length sep) s))"

definition TrimRight :: "string \<Rightarrow> string \<Rightarrow> string" where
  "TrimRight s cutset = rev (dropWhile (\<lambda>c. c \<in> set cutset) (rev s))"

text \<open>\<open>bytes.TrimSpace\<close> on the white space of ASCII.\<close>

definition asciiSpace :: string where
  "asciiSpace = [tab, newline, CHR 0x0B, CHR 0x0C, carriageReturn, CHR '' '']"

definition TrimSpace :: "string \<Rightarrow> string" where
  "TrimSpace s = TrimRight (dropWhile (\<lambda>c. c \<in> set asciiSpace) s) asciiSpace"

subsection \<open>encoding/base64, the standard encoding\<close>

definition encodeStd :: string where
  "encodeStd = ''ABCDEFGHIJKLMNOPQRSTUVWXYZabcdefghijklmnopqrstuvwxyz0123456789+/''"

definition padChar :: char where
  "padChar = CHR ''=''"

text \<open>The character of a six-bit value, and the six-bit value of a character of the
  alphabet.\<close>

definition encodeChar :: "nat \<Rightarrow> char" where
  "encodeChar v = encodeStd ! v"

fun indexOf :: "char list \<Rightarrow> char \<Rightarrow> nat option" where
  "indexOf [] c = None"
| "indexOf (x # xs) c = (if x = c then Some 0 else map_option Suc (indexOf xs c))"

definition decodeMap :: "char \<Rightarrow> nat option" where
  "decodeMap c = indexOf encodeStd c"

text \<open>\<open>Encoding.EncodeToString\<close>: three bytes give four characters; a rest of one or two
  bytes is padded.\<close>

fun base64_Encode :: "string \<Rightarrow> string" where
  "base64_Encode [] = []"
| "base64_Encode [a] =
     [encodeChar (of_char a div 4), encodeChar (of_char a mod 4 * 16), padChar, padChar]"
| "base64_Encode [a, b] =
     [encodeChar (of_char a div 4),
      encodeChar (of_char a mod 4 * 16 + of_char b div 16),
      encodeChar (of_char b mod 16 * 4), padChar]"
| "base64_Encode (a # b # c # src) =
     [encodeChar (of_char a div 4),
      encodeChar (of_char a mod 4 * 16 + of_char b div 16),
      encodeChar (of_char b mod 16 * 4 + of_char c div 64),
      encodeChar (of_char c mod 64)] @ base64_Encode src"

text \<open>The bytes of a quantum of six-bit values \<open>x y z w\<close>.\<close>

definition byte1 :: "nat \<Rightarrow> nat \<Rightarrow> char" where
  "byte1 x y = char_of (x * 4 + y div 16)"

definition byte2 :: "nat \<Rightarrow> nat \<Rightarrow> char" where
  "byte2 y z = char_of (y mod 16 * 16 + z div 4)"

definition byte3 :: "nat \<Rightarrow> nat \<Rightarrow> char" where
  "byte3 z w = char_of (z mod 4 * 64 + w)"

text \<open>
  \<open>Encoding.Decode\<close> skips every \<open>\n\<close> and \<open>\r\<close> and reads quanta of four characters. The
  last quantum may end in one or two padding characters, after which only \<open>\n\<close> and \<open>\r\<close>
  may follow. \<open>decodeQuanta\<close> reads the input without its \<open>\n\<close> and \<open>\r\<close>; \<open>None\<close> is a
  \<open>CorruptInputError\<close>.
\<close>

fun decodeQuanta :: "string \<Rightarrow> string option" where
  "decodeQuanta (a # b # c # d # src) =
     (case decodeMap a of None \<Rightarrow> None | Some x \<Rightarrow>
      case decodeMap b of None \<Rightarrow> None | Some y \<Rightarrow>
      if c = padChar then (if d = padChar \<and> src = [] then Some [byte1 x y] else None)
      else case decodeMap c of None \<Rightarrow> None | Some z \<Rightarrow>
      if d = padChar then (if src = [] then Some [byte1 x y, byte2 y z] else None)
      else case decodeMap d of None \<Rightarrow> None | Some w \<Rightarrow>
      map_option (\<lambda>dst. byte1 x y # byte2 y z # byte3 z w # dst) (decodeQuanta src))"
| "decodeQuanta [] = Some []"
| "decodeQuanta src = None"

definition base64_Decode :: "string \<Rightarrow> string option" where
  "base64_Decode src = decodeQuanta (filter (\<lambda>c. c \<noteq> newline \<and> c \<noteq> carriageReturn) src)"

subsection \<open>encoding/pem\<close>

definition pemStart :: string where
  "pemStart = newline # ''-----BEGIN ''"

definition pemEnd :: string where
  "pemEnd = newline # ''-----END ''"

definition pemEndOfLine :: string where
  "pemEndOfLine = ''-----''"

definition colon :: string where
  "colon = '':''"

definition pemLineLength :: nat where
  "pemLineLength = 64"

text \<open>\<open>getLine\<close>: the first line without its line end and trailing blanks, and the rest.\<close>

definition getLine :: "string \<Rightarrow> string \<times> string" where
  "getLine data =
     (case bytes_IndexByte data newline of
        None \<Rightarrow> (TrimRight data [CHR '' '', tab], [])
      | Some i \<Rightarrow>
          (TrimRight (take (if 0 < i \<and> data ! (i - 1) = carriageReturn then i - 1 else i) data)
             [CHR '' '', tab],
           drop (i + 1) data))"

definition removeSpacesAndTabs :: "string \<Rightarrow> string" where
  "removeSpacesAndTabs data = filter (\<lambda>b. b \<noteq> CHR '' '' \<and> b \<noteq> tab) data"

lemma bytes_IndexByte_less: "bytes_IndexByte s c = Some i \<Longrightarrow> i < length s"
  by (induction s arbitrary: i) (auto split: if_splits)

lemma getLine_rest_le: "length (snd (getLine data)) \<le> length data"
  by (auto simp: getLine_def split: option.splits)

lemma getLine_rest_less: "data \<noteq> [] \<Longrightarrow> length (snd (getLine data)) < length data"
  by (auto simp: getLine_def split: option.splits dest: bytes_IndexByte_less)

text \<open>
  The loop of \<open>Decode\<close> that reads the headers of a block. It ends the whole \<open>Decode\<close>
  with no block when the input ends (\<open>None\<close>); otherwise it stops at the first line
  without a colon and gives the headers read, in order, and the input from that line on.
  \<open>p.Headers\<close> is a map: of two lines with one key the later one counts.
\<close>

function readHeaders ::
  "string \<Rightarrow> (string \<times> string) list \<Rightarrow> ((string \<times> string) list \<times> string) option" where
  "readHeaders rest headers =
     (if length rest = 0 then None
      else case bytes_Cut (fst (getLine rest)) colon of
             None \<Rightarrow> Some (headers, rest)
           | Some (key, val) \<Rightarrow>
               readHeaders (snd (getLine rest)) (headers @ [(TrimSpace key, TrimSpace val)]))"
  by pat_completeness auto
termination
  by (relation "measure (\<lambda>(rest, headers). length rest)") (auto simp: getLine_rest_less)

text \<open>
  The part of an iteration of \<open>Decode\<close> after the headers: it looks for the END line of
  the type, decodes the base64 text before it and gives the block and the input after
  the END line. \<open>None\<close> stands for each \<open>continue\<close> of this part.
\<close>

definition decodeBody ::
  "string \<Rightarrow> (string \<times> string) list \<Rightarrow> string \<Rightarrow> (pem_Block \<times> string) option" where
  "decodeBody typeLine headers rest =
     (case (if length headers = 0 \<and> HasPrefix rest (tl pemEnd) then Some (0, length pemEnd - 1)
            else map_option (\<lambda>i. (i, i + length pemEnd)) (bytes_Index rest pemEnd)) of
        None \<Rightarrow> None
      | Some (endIndex, endTrailerIndex) \<Rightarrow>
          (let endTrailer = drop endTrailerIndex rest;
               endTrailerLen = length typeLine + length pemEndOfLine
           in if length endTrailer < endTrailerLen then None
              else if HasPrefix (take endTrailerLen endTrailer) typeLine
                      \<and> HasSuffix (take endTrailerLen endTrailer) pemEndOfLine then
                if length (fst (getLine (drop endTrailerLen endTrailer))) = 0 then
                  (case base64_Decode (removeSpacesAndTabs (take endIndex rest)) of
                     None \<Rightarrow> None
                   | Some bytes \<Rightarrow>
                       Some (\<lparr>pemType = typeLine, pemHeaders = headers, pemBytes = bytes\<rparr>,
                             snd (getLine (drop (endIndex + length pemEnd - 1) rest))))
                else None
              else None))"

text \<open>The start of an iteration of \<open>Decode\<close>: the input after the next BEGIN marker.\<close>

definition afterStart :: "string \<Rightarrow> string option" where
  "afterStart rest =
     (if HasPrefix rest (tl pemStart) then Some (drop (length pemStart - 1) rest)
      else map_option snd (bytes_Cut rest pemStart))"

lemma HasPrefix_length: "HasPrefix s pre \<Longrightarrow> length pre \<le> length s"
proof -
  assume "HasPrefix s pre"
  then have "length (take (length pre) s) = length pre" by (simp only: HasPrefix_def)
  then show ?thesis by simp
qed

lemma bytes_Index_bound: "bytes_Index s sep = Some i \<Longrightarrow> i + length sep \<le> length s"
proof (induction s arbitrary: i)
  case Nil
  then show ?case by (simp split: if_splits)
next
  case (Cons x s)
  show ?case
  proof (cases "HasPrefix (x # s) sep")
    case True
    with Cons.prems have "i = 0" by simp
    with HasPrefix_length[OF True] show ?thesis by simp
  next
    case False
    with Cons.prems obtain j where j: "bytes_Index s sep = Some j" and i: "i = Suc j"
      by (cases "bytes_Index s sep") simp_all
    from Cons.IH[OF j] i show ?thesis by simp
  qed
qed

lemma pemStart_length: "length pemStart = 12"
  by (simp add: pemStart_def)

lemma afterStart_less: "afterStart rest = Some rest1 \<Longrightarrow> length rest1 < length rest"
proof (cases "HasPrefix rest (tl pemStart)")
  case True
  assume a: "afterStart rest = Some rest1"
  from HasPrefix_length[OF True] have "11 \<le> length rest" by (simp add: pemStart_length)
  moreover from a True have "rest1 = drop 11 rest" by (simp add: afterStart_def pemStart_length)
  ultimately show ?thesis by simp
next
  case False
  assume a: "afterStart rest = Some rest1"
  with False obtain i where i: "bytes_Index rest pemStart = Some i" and r: "rest1 = drop (i + length pemStart) rest"
    by (cases "bytes_Index rest pemStart") (simp_all add: afterStart_def bytes_Cut_def)
  from bytes_Index_bound[OF i] r show ?thesis by (simp add: pemStart_length)
qed

lemma readHeaders_le: "readHeaders rest headers = Some (hs, rest') \<Longrightarrow> length rest' \<le> length rest"
proof (induction rest headers rule: readHeaders.induct)
  case (1 rest headers)
  show ?case
  proof (cases "bytes_Cut (fst (getLine rest)) colon")
    case None
    with "1.prems" show ?thesis by (auto split: if_splits)
  next
    case (Some kv)
    obtain key val where kv: "kv = (key, val)" by (cases kv)
    from "1.prems" Some kv have ne: "rest \<noteq> []" and
      rec: "readHeaders (snd (getLine rest)) (headers @ [(TrimSpace key, TrimSpace val)]) = Some (hs, rest')"
      by (auto split: if_splits)
    from "1.IH"[OF _ Some[unfolded kv] refl rec] ne
    have "length rest' \<le> length (snd (getLine rest))" by simp
    with getLine_rest_le[of rest] show ?thesis by simp
  qed
qed

declare readHeaders.simps [simp del]

text \<open>
  \<open>Decode\<close>. \<open>data\<close> is the input, returned whole when no block is found; \<open>rest\<close> is the
  variable of that name, which every iteration of the loop shortens.
\<close>

function decodeLoop :: "string \<Rightarrow> string \<Rightarrow> pem_Block option \<times> string" where
  "decodeLoop data rest =
     (case afterStart rest of
        None \<Rightarrow> (None, data)
      | Some rest1 \<Rightarrow>
          if HasSuffix (fst (getLine rest1)) pemEndOfLine then
            (case readHeaders (snd (getLine rest1)) [] of
               None \<Rightarrow> (None, data)
             | Some (headers, rest2) \<Rightarrow>
                 (case decodeBody
                         (take (length (fst (getLine rest1)) - length pemEndOfLine) (fst (getLine rest1)))
                         headers rest2 of
                    None \<Rightarrow> decodeLoop data rest2
                  | Some (p, rest3) \<Rightarrow> (Some p, rest3)))
          else decodeLoop data (snd (getLine rest1)))"
  by pat_completeness auto
termination
proof (relation "measure (\<lambda>(data, rest). length rest)")
  show "wf (measure (\<lambda>(data, rest). length rest))" by simp
next
  fix data rest rest1 x2 headers rest2
  assume a: "afterStart rest = Some rest1" and r: "readHeaders (snd (getLine rest1)) [] = Some x2"
    and x: "(headers, rest2) = x2"
  from a have "length rest1 < length rest" by (rule afterStart_less)
  moreover from r x have "readHeaders (snd (getLine rest1)) [] = Some (headers, rest2)"
    by simp
  then have "length rest2 \<le> length (snd (getLine rest1))" by (rule readHeaders_le)
  ultimately show "((data, rest2), (data, rest)) \<in> measure (\<lambda>(data, rest). length rest)"
    using getLine_rest_le[of rest1] by simp
next
  fix data rest rest1
  assume "afterStart rest = Some rest1"
  then have "length rest1 < length rest" by (rule afterStart_less)
  with getLine_rest_le[of rest1]
  show "((data, snd (getLine rest1)), (data, rest)) \<in> measure (\<lambda>(data, rest). length rest)" by simp
qed

declare decodeLoop.simps [simp del]

definition pem_Decode :: pem_Decode where
  "pem_Decode data = decodeLoop data data"

text \<open>The \<open>lineBreaker\<close> of \<open>Encode\<close>: lines of 64 characters, each ended by \<open>\n\<close>.\<close>

function lineBreaker :: "string \<Rightarrow> string" where
  "lineBreaker b =
     (if length b = 0 then []
      else take pemLineLength b @ [newline] @ lineBreaker (drop pemLineLength b))"
  by pat_completeness auto
termination
  by (relation "measure length") (auto simp: pemLineLength_def)

declare lineBreaker.simps [simp del]

text \<open>The header lines of \<open>Encode\<close>: \<open>Proc-Type\<close> first, the other keys sorted, then an
  empty line; nothing when the block has no header.\<close>

definition headerValue :: "(string \<times> string) list \<Rightarrow> string \<Rightarrow> string" where
  "headerValue headers k = (case map_of (rev headers) k of None \<Rightarrow> [] | Some v \<Rightarrow> v)"

definition writeHeader :: "(string \<times> string) list \<Rightarrow> string \<Rightarrow> string" where
  "writeHeader headers k = k @ '': '' @ headerValue headers k @ [newline]"

definition encodeHeaders :: "(string \<times> string) list \<Rightarrow> string" where
  "encodeHeaders headers =
     (if length headers = 0 then []
      else (if ''Proc-Type'' \<in> set (map fst headers) then writeHeader headers ''Proc-Type'' else [])
           @ concat (map (writeHeader headers)
                       (sort (remdups (filter (\<lambda>k. k \<noteq> ''Proc-Type'') (map fst headers)))))
           @ [newline])"

text \<open>\<open>EncodeToMemory\<close>: nil when a header key contains a colon.\<close>

definition pem_EncodeToMemory :: pem_EncodeToMemory where
  "pem_EncodeToMemory b =
     (if list_ex (\<lambda>k. CHR '':'' \<in> set k) (map fst (pemHeaders b)) then []
      else tl pemStart @ pemType b @ pemEndOfLine @ [newline]
           @ encodeHeaders (pemHeaders b)
           @ lineBreaker (base64_Encode (pemBytes b))
           @ tl pemEnd @ pemType b @ pemEndOfLine @ [newline])"

section \<open>Signing controller (workloadcertificatesigner)\<close>

text \<open>The fields of \<open>x509.Certificate\<close> that the templates set; a field a template leaves
  out has Go's zero value.\<close>

datatype x509_ExtKeyUsage = ExtKeyUsageAny | ExtKeyUsageServerAuth | ExtKeyUsageClientAuth

record x509_Certificate =
  SerialNumber :: int
  Subject_CommonName :: string
  KeyUsage :: int
  ExtKeyUsage :: "x509_ExtKeyUsage list"
  BasicConstraintsValid :: bool
  tmplNotBefore :: time
  tmplNotAfter :: time

text \<open>\<open>x509.KeyUsage\<close> is a bit set: \<open>1 << iota\<close> in the order of the standard library.\<close>

definition KeyUsageDigitalSignature :: int where
  "KeyUsageDigitalSignature = push_bit 0 1"

definition KeyUsageContentCommitment :: int where
  "KeyUsageContentCommitment = push_bit 1 1"

definition KeyUsageKeyEncipherment :: int where
  "KeyUsageKeyEncipherment = push_bit 2 1"

definition KeyUsageDataEncipherment :: int where
  "KeyUsageDataEncipherment = push_bit 3 1"

definition KeyUsageKeyAgreement :: int where
  "KeyUsageKeyAgreement = push_bit 4 1"

definition serialNumberLimit :: int where
  "serialNumberLimit = push_bit 128 1"

text \<open>
  What the controller reads from outside: the informer cache, the API client, the two CA
  key pairs, the clock, the random source and the parsers and the signer of the libraries.
  \<open>keyutil.ParsePublicKeysPEM\<close> returns a slice and an error together, and the code reads
  the slice also when the error is set. Parsed keys and certificates are opaque strings.
\<close>

record Controller =
  wcLister_Get :: "string \<Rightarrow> string \<Rightarrow> error + WorkloadCertificate"
  kc_UpdateStatus :: "WorkloadCertificate \<Rightarrow> error option"
  kubeAPIServerClientKeyPair :: "string \<times> string"
  defaultWorkloadCertificateKeyPair :: "string \<times> string"
  time_Now :: time
  rand_Int :: "int \<Rightarrow> error + int"
  SplitMetaNamespaceKey :: "string \<Rightarrow> error + string \<times> string"
  ParseCertsPEM :: "string \<Rightarrow> error + string list"
  ParsePrivateKeyPEM :: "string \<Rightarrow> error + string"
  ParsePublicKeysPEM :: "string \<Rightarrow> string list \<times> error option"
  CreateCertificate :: "x509_Certificate \<Rightarrow> string \<Rightarrow> string \<Rightarrow> string \<Rightarrow> error + string"
  EncodeToMemory :: pem_EncodeToMemory

text \<open>The result of a controller function: the error it returns, and the objects it
  submitted to \<open>UpdateStatus\<close>, in order.\<close>

type_synonym outcome = "error option \<times> WorkloadCertificate list"

text \<open>The idiom \<open>if err != nil { return fmt.Errorf("...: %w", err) }; return nil\<close> after a
  call: the error is wrapped with the prefix, the writes of the call are kept.\<close>

definition wrapErr :: "string \<Rightarrow> outcome \<Rightarrow> outcome" where
  "wrapErr prefix res =
     (case fst res of
        Some err \<Rightarrow> (Some (Errorf (prefix @ Error err)), snd res)
      | None \<Rightarrow> (None, snd res))"

text \<open>The loop that both \<open>setWCFailed\<close> and \<open>setWCIssued\<close> run over \<open>wc.Status.Conditions\<close>:
  a condition of type Failed or Pending is skipped, any other is appended.\<close>

fun clearFailedAndPending ::
  "WorkloadCertificateCondition list \<Rightarrow> WorkloadCertificateCondition list \<Rightarrow> WorkloadCertificateCondition list" where
  "clearFailedAndPending [] newConditions = newConditions"
| "clearFailedAndPending (cond # conds) newConditions =
     (if Type cond = WorkloadCertificateFailed then clearFailedAndPending conds newConditions
      else if Type cond = WorkloadCertificatePending then clearFailedAndPending conds newConditions
      else clearFailedAndPending conds (newConditions @ [cond]))"

text \<open>\<open>setWCFailed\<close>; \<open>message\<close> is \<open>fmt.Sprintf(format, args...)\<close>, formatted by the caller.\<close>

definition setWCFailed :: "Controller \<Rightarrow> WorkloadCertificate \<Rightarrow> string \<Rightarrow> string \<Rightarrow> outcome" where
  "setWCFailed c wc reason message =
     (let newConditions = clearFailedAndPending (Conditions (wcStatus wc)) [];
          wc1 = wc\<lparr>wcStatus := (wcStatus wc)\<lparr>Conditions := newConditions\<rparr>\<rparr>;
          wc2 = wc1\<lparr>wcStatus := (wcStatus wc1)\<lparr>Conditions := Conditions (wcStatus wc1) @
                  [\<lparr>Type = WorkloadCertificateFailed,
                    Status = ConditionTrue,
                    Reason = reason,
                    Message = message,
                    ObservedGeneration = Generation (wcObjectMeta wc1),
                    LastUpdateTime = zeroTime,
                    LastTransitionTime = zeroTime\<rparr>]\<rparr>\<rparr>
      in wrapErr ''while updating status: '' (kc_UpdateStatus c wc2, [wc2]))"

definition setWCIssued ::
  "Controller \<Rightarrow> WorkloadCertificate \<Rightarrow> string \<Rightarrow> time \<Rightarrow> time \<Rightarrow> time \<Rightarrow> outcome" where
  "setWCIssued c wc issuedPEM notBefore notAfter beginRefreshAt =
     (let wc1 = wc\<lparr>wcStatus := (wcStatus wc)\<lparr>
                  Certificate := issuedPEM,
                  CertificateObservedGeneration := Generation (wcObjectMeta wc),
                  NotBefore := notBefore,
                  NotAfter := notAfter,
                  BeginRefreshAt := beginRefreshAt\<rparr>\<rparr>;
          newConditions = clearFailedAndPending (Conditions (wcStatus wc1)) [];
          wc2 = wc1\<lparr>wcStatus := (wcStatus wc1)\<lparr>Conditions := newConditions\<rparr>\<rparr>
      in wrapErr ''while updating status: '' (kc_UpdateStatus c wc2, [wc2]))"

text \<open>\<open>apiserverClientCertificateTemplate\<close>: the template has no \<open>NotBefore\<close> and no
  \<open>NotAfter\<close>; the two parameters are not read.\<close>

definition apiserverClientCertificateTemplate ::
  "Controller \<Rightarrow> WorkloadCertificate \<Rightarrow> time \<Rightarrow> time \<Rightarrow> error + x509_Certificate" where
  "apiserverClientCertificateTemplate c wc notBefore notAfter =
     (case rand_Int c serialNumberLimit of
        Inl err \<Rightarrow> Inl (Errorf (''while generating serial number: '' @ Error err))
      | Inr serialNumber \<Rightarrow>
          Inr \<lparr>SerialNumber = serialNumber,
               Subject_CommonName =
                 ''system:serviceaccount:'' @ Namespace (wcObjectMeta wc) @ '':'' @ ServiceAccount (Spec wc),
               KeyUsage = KeyUsageDataEncipherment OR KeyUsageKeyAgreement OR KeyUsageKeyEncipherment,
               ExtKeyUsage = [ExtKeyUsageClientAuth, ExtKeyUsageServerAuth],
               BasicConstraintsValid = True,
               tmplNotBefore = zeroTime,
               tmplNotAfter = zeroTime\<rparr>)"

definition defaultWorkloadCertificateTemplate ::
  "Controller \<Rightarrow> WorkloadCertificate \<Rightarrow> time \<Rightarrow> time \<Rightarrow> error + x509_Certificate" where
  "defaultWorkloadCertificateTemplate c wc notBefore notAfter =
     (case rand_Int c serialNumberLimit of
        Inl err \<Rightarrow> Inl (Errorf (''while generating serial number: '' @ Error err))
      | Inr serialNumber \<Rightarrow>
          Inr \<lparr>SerialNumber = serialNumber,
               Subject_CommonName =
                 ''system:serviceaccount:'' @ Namespace (wcObjectMeta wc) @ '':'' @ ServiceAccount (Spec wc),
               KeyUsage = KeyUsageDataEncipherment OR KeyUsageKeyAgreement OR KeyUsageKeyEncipherment,
               ExtKeyUsage = [ExtKeyUsageClientAuth, ExtKeyUsageServerAuth],
               BasicConstraintsValid = True,
               tmplNotBefore = notBefore,
               tmplNotAfter = notAfter\<rparr>)"

text \<open>
  \<open>issueKubeAPIServerClientCert\<close> and \<open>issueDefaultWorkloadCertificate\<close> are the same text
  but for the key pair they read and the template function they call; \<open>issueWith\<close> is that
  text, and the two functions instantiate it.
\<close>

definition issueWith ::
  "Controller \<Rightarrow> string \<times> string \<Rightarrow>
   (Controller \<Rightarrow> WorkloadCertificate \<Rightarrow> time \<Rightarrow> time \<Rightarrow> error + x509_Certificate) \<Rightarrow>
   WorkloadCertificate \<Rightarrow> outcome" where
  "issueWith c keyPair template wc =
     (case keyPair of (certPEM, keyPEM) \<Rightarrow>
      case ParseCertsPEM c certPEM of
        Inl err \<Rightarrow> (Some (Errorf (''while reading CA certificate file: '' @ Error err)), [])
      | Inr caCerts \<Rightarrow>
      (case caCerts of
        [caCert] \<Rightarrow>
          (case ParsePrivateKeyPEM c keyPEM of
             Inl err \<Rightarrow> (Some (Errorf (''while reading CA key file: '' @ Error err)), [])
           | Inr caPrivKey \<Rightarrow>
          (case ParsePublicKeysPEM c (PublicKey (Spec wc)) of
             (pubKeyObjs, Some err) \<Rightarrow>
               wrapErr ''while marking WorkloadCertificate failed: ''
                 (setWCFailed c wc ''BadPublicKey''
                    (''Public key contained '' @ decimal (length pubKeyObjs) @ '' keys, wanted 1''))
           | (pubKeyObjs, None) \<Rightarrow>
          (case pubKeyObjs of
             [requestPubKey] \<Rightarrow>
               (let notBefore = time_Add (time_Now c) (- 5 * Minute);
                    notAfter = time_Add notBefore (24 * Hour);
                    beginRenewAt = time_Add notBefore (18 * Hour)
                in case template c wc notBefore notAfter of
                     Inl err \<Rightarrow>
                       (Some (Errorf (''while creating certificate template: '' @ Error err)), [])
                   | Inr tmpl \<Rightarrow>
                  (case CreateCertificate c tmpl caCert requestPubKey caPrivKey of
                     Inl err \<Rightarrow>
                       wrapErr ''while marking WorkloadCertificate failed: ''
                         (setWCFailed c wc ''SigningFailure'' (''Failed to sign certificate: '' @ Error err))
                   | Inr issuedDER \<Rightarrow>
                      (let issuedPEM = EncodeToMemory c
                             \<lparr>pemType = ''CERTIFICATE'', pemHeaders = [], pemBytes = issuedDER\<rparr>
                       in wrapErr ''while setting WorkloadCertificate issued: ''
                            (setWCIssued c wc issuedPEM notBefore notAfter beginRenewAt))))
           | _ \<Rightarrow>
               wrapErr ''while marking WorkloadCertificate failed: ''
                 (setWCFailed c wc ''BadPublicKey''
                    (''Public key contained '' @ decimal (length pubKeyObjs) @ '' keys, wanted 1'')))))
      | _ \<Rightarrow>
          (Some (Errorf (''while reading CA certificate file: '' @ decimal (length caCerts)
                         @ '' cert(s) found, one expected'')), [])))"

definition issueKubeAPIServerClientCert :: "Controller \<Rightarrow> WorkloadCertificate \<Rightarrow> outcome" where
  "issueKubeAPIServerClientCert c wc =
     issueWith c (kubeAPIServerClientKeyPair c) apiserverClientCertificateTemplate wc"

definition issueDefaultWorkloadCertificate :: "Controller \<Rightarrow> WorkloadCertificate \<Rightarrow> outcome" where
  "issueDefaultWorkloadCertificate c wc =
     issueWith c (defaultWorkloadCertificateKeyPair c) defaultWorkloadCertificateTemplate wc"

definition handleWorkloadCertificate :: "Controller \<Rightarrow> string \<Rightarrow> outcome" where
  "handleWorkloadCertificate c key =
     (case SplitMetaNamespaceKey c key of
        Inl err \<Rightarrow> (Some (Errorf (''while splitting key: '' @ Error err)), [])
      | Inr (namespace, name) \<Rightarrow>
     (case wcLister_Get c namespace name of
        Inl err \<Rightarrow>
          if IsNotFound err then (None, [])
          else (Some (Errorf (''while retrieving WorkloadCertificate from cache: '' @ Error err)), [])
      | Inr wc \<Rightarrow>
          if length (Certificate (wcStatus wc)) \<noteq> 0
             \<and> CertificateObservedGeneration (wcStatus wc) = Generation (wcObjectMeta wc)
          then (None, [])
          else if SignerName (Spec wc) = KubeAPIServerClientSignerName then
            wrapErr (''while issuing certificate for '' @ KubeAPIServerClientSignerName @ '': '')
              (issueKubeAPIServerClientCert c wc)
          else if SignerName (Spec wc) = DefaultWorkloadCertificateSignerName then
            wrapErr (''while issuing certificate for '' @ DefaultWorkloadCertificateSignerName @ '': '')
              (issueDefaultWorkloadCertificate c wc)
          else (None, [])))"

text \<open>The number of conditions of a type in a list.\<close>

definition countType :: "string \<Rightarrow> WorkloadCertificateCondition list \<Rightarrow> nat" where
  "countType t conds = length (filter (\<lambda>cond. Type cond = t) conds)"

section \<open>Admission attributes\<close>

text \<open>
  What the two admission plugins read from \<open>admission.Attributes\<close>. A group resource is
  the pair of its group and its resource. The object under admission is a value of the
  Go interface \<open>runtime.Object\<close>: one of the two kinds of this subsystem, another type
  (known by its name only), or nil.
\<close>

datatype Operation = Create | Update | Delete | Connect

datatype Object =
  NilObject
  | WorkloadCertificateObject WorkloadCertificate
  | ClusterTrustBundleObject ClusterTrustBundle
  | OtherObject string

record UserInfo =
  userName :: string
  userGroups :: "string list"

record Attributes =
  attrResource :: "string \<times> string"
  attrSubresource :: string
  attrOperation :: Operation
  attrUserInfo :: UserInfo
  attrObject :: Object
  attrOldObject :: Object

text \<open>\<open>api.Resource(r)\<close> of package \<open>pkg/apis/certificates\<close>: the resource in the group
  \<open>certificates.k8s.io\<close>.\<close>

definition api_Resource :: "string \<Rightarrow> string \<times> string" where
  "api_Resource resource = (''certificates.k8s.io'', resource)"

text \<open>The verb \<open>%T\<close> of \<open>fmt\<close> on an object.\<close>

fun typeName :: "Object \<Rightarrow> string" where
  "typeName NilObject = ''<nil>''"
| "typeName (WorkloadCertificateObject wc) = ''*certificates.WorkloadCertificate''"
| "typeName (ClusterTrustBundleObject ctb) = ''*certificates.ClusterTrustBundle''"
| "typeName (OtherObject t) = t"

text \<open>The verb \<open>%q\<close> of \<open>fmt\<close>: the string between double quotes (the escapes that
  \<open>strconv.Quote\<close> writes for special characters are not modelled; no claim reads a
  message).\<close>

definition quoted :: "string \<Rightarrow> string" where
  "quoted str = [CHR 0x22] @ str @ [CHR 0x22]"

text \<open>\<open>admission.NewForbidden(a, err)\<close>: a forbidden status that carries the message of
  \<open>err\<close>.\<close>

definition NewForbidden :: "Attributes \<Rightarrow> string \<Rightarrow> error" where
  "NewForbidden a msg = StatusForbidden msg"

text \<open>
  \<open>certificates.IsAuthorizedForSignerName(ctx, authz, info, verb, signerName)\<close> belongs
  to a package of the repository whose file is not among the sources. The plugins take
  it, applied to their authorizer, as a parameter: a predicate of the user, the verb and
  the signer name.
\<close>

type_synonym IsAuthorizedForSignerName = "UserInfo \<Rightarrow> string \<Rightarrow> string \<Rightarrow> bool"

section \<open>Admission plugin ClusterTrustBundleEntrusting (entrusting)\<close>

definition clusterTrustBundleGroupResource :: "string \<times> string" where
  "clusterTrustBundleGroupResource = api_Resource ''clustertrustbundles''"

text \<open>The block of \<open>Validate\<close> under \<open>a.GetOperation() == admission.Update\<close>: the error it
  returns, if any.\<close>

definition entrusting_checkUpdate :: "Attributes \<Rightarrow> ClusterTrustBundle \<Rightarrow> error option" where
  "entrusting_checkUpdate a newBundle =
     (if attrOperation a = Update then
        (case attrOldObject a of
           ClusterTrustBundleObject oldBundle \<Rightarrow>
             if ctbSignerName (ctbSpec oldBundle) = ctbSignerName (ctbSpec newBundle) then None
             else Some (NewForbidden a ''changing signerName is forbidden'')
         | _ \<Rightarrow>
             Some (NewForbidden a (''expected type ClusterTrustBundle, got: '' @ typeName (attrOldObject a))))
      else None)"

definition entrusting_Validate :: "IsAuthorizedForSignerName \<Rightarrow> Attributes \<Rightarrow> error option" where
  "entrusting_Validate authz a =
     (if attrResource a = clusterTrustBundleGroupResource then
        (case attrObject a of
           ClusterTrustBundleObject newBundle \<Rightarrow>
             (case entrusting_checkUpdate a newBundle of
                Some err \<Rightarrow> Some err
              | None \<Rightarrow>
                  if ctbSignerName (ctbSpec newBundle) = [] then None
                  else if authz (attrUserInfo a) ''entrust'' (ctbSignerName (ctbSpec newBundle)) then None
                  else Some (NewForbidden a (''user not permitted to entrust signerName ''
                                             @ quoted (ctbSignerName (ctbSpec newBundle)))))
         | _ \<Rightarrow>
             Some (NewForbidden a (''expected type ClusterTrustBundle, got: '' @ typeName (attrOldObject a))))
      else None)"

section \<open>Admission plugin WorkloadCertificateRestriction (wcrestriction)\<close>

text \<open>The fields of a pod that the plugin reads.\<close>

record PodInfo =
  podObjectUID :: string
  podServiceAccountName :: string
  podNodeName :: string

record Plugin =
  authz :: IsAuthorizedForSignerName
  enabled :: bool
  podLister_Get :: "string \<Rightarrow> string \<Rightarrow> error + PodInfo"

definition workloadCertificateGroupResource :: "string \<times> string" where
  "workloadCertificateGroupResource = api_Resource ''workloadcertificates''"

text \<open>\<open>strings.TrimPrefix\<close>: the string without the prefix if it starts with it, the
  string itself otherwise.\<close>

definition TrimPrefix :: "string \<Rightarrow> string \<Rightarrow> string" where
  "TrimPrefix str pre = (if take (length pre) str = pre then drop (length pre) str else str)"

text \<open>\<open>Admit\<close> writes three fields of the object under admission; the model returns the
  error, or the object as it leaves the plugin.\<close>

definition wcrestriction_Admit :: "Plugin \<Rightarrow> Attributes \<Rightarrow> error + Object" where
  "wcrestriction_Admit p a =
     (if enabled p then
        if attrResource a = workloadCertificateGroupResource then
          (case attrObject a of
             WorkloadCertificateObject newWC \<Rightarrow>
               (case podLister_Get p (Namespace (wcObjectMeta newWC)) (Pod (Spec newWC)) of
                  Inl err \<Rightarrow>
                    if IsNotFound err then
                      Inl (NewForbidden a (''the named pod '' @ Namespace (wcObjectMeta newWC) @ ''/''
                             @ Pod (Spec newWC) @ '' does not exist in the cluster''))
                    else Inl (Errorf (''while getting pod: '' @ Error err))
                | Inr pod \<Rightarrow>
                    if podObjectUID pod = PodUID (Spec newWC) then
                      Inr (WorkloadCertificateObject
                             (newWC\<lparr>Spec := (Spec newWC)\<lparr>
                                ServiceAccount := podServiceAccountName pod,
                                Node := podNodeName pod,
                                Requester := userName (attrUserInfo a)\<rparr>\<rparr>))
                    else
                      Inl (NewForbidden a (''pod UID mismatch (pod has '' @ podObjectUID pod
                             @ '', workload certificate has '' @ PodUID (Spec newWC) @ '')'')))
           | _ \<Rightarrow>
               Inl (NewForbidden a (''expected type WorkloadCertificate, got: '' @ typeName (attrOldObject a))))
        else Inr (attrObject a)
      else Inr (attrObject a))"

text \<open>The node restriction check of \<open>Validate\<close>, from the pod lookup to the end.\<close>

definition wcrestriction_nodeRestriction :: "Plugin \<Rightarrow> Attributes \<Rightarrow> WorkloadCertificate \<Rightarrow> error option" where
  "wcrestriction_nodeRestriction p a newWC =
     (case podLister_Get p (Namespace (wcObjectMeta newWC)) (Pod (Spec newWC)) of
        Inl err \<Rightarrow>
          if IsNotFound err then
            Some (NewForbidden a (''the named pod '' @ Namespace (wcObjectMeta newWC) @ ''/''
                   @ Pod (Spec newWC) @ '' does not exist in the cluster''))
          else Some (Errorf (''while getting pod: '' @ Error err))
      | Inr pod \<Rightarrow>
          if podObjectUID pod = PodUID (Spec newWC) then
            if podServiceAccountName pod = ServiceAccount (Spec newWC) then
              if podNodeName pod = Node (Spec newWC) then
                if TrimPrefix (Requester (Spec newWC)) ''system:node:'' = Node (Spec newWC) then None
                else Some (NewForbidden a (''the requester '' @ Requester (Spec newWC)
                             @ '' is not related to node '' @ Node (Spec newWC)))
              else Some (NewForbidden a (''pod node mismatch (pod has '' @ podNodeName pod
                           @ '', workload certificate has '' @ Node (Spec newWC) @ '')''))
            else Some (NewForbidden a (''pod service account mismatch (pod has '' @ podServiceAccountName pod
                         @ '', workload certificate has '' @ ServiceAccount (Spec newWC) @ '')''))
          else Some (NewForbidden a (''pod UID mismatch (pod has '' @ podObjectUID pod
                       @ '', workload certificate has '' @ PodUID (Spec newWC) @ '')'')))"

definition wcrestriction_Validate :: "Plugin \<Rightarrow> Attributes \<Rightarrow> error option" where
  "wcrestriction_Validate p a =
     (if enabled p then
        if attrResource a = workloadCertificateGroupResource then
          (case attrObject a of
             WorkloadCertificateObject newWC \<Rightarrow>
               if attrSubresource a = [] \<and> userName (attrUserInfo a) \<noteq> Requester (Spec newWC) then
                 Some (NewForbidden a (''only the original requester '' @ quoted (Requester (Spec newWC))
                         @ '' may modify this WorkloadCertificate''))
               else if attrSubresource a = ''status''
                       \<and> \<not> authz p (attrUserInfo a) ''sign'' (SignerName (Spec newWC)) then
                 Some (NewForbidden a (''user not permitted to sign requests with signerName ''
                         @ quoted (SignerName (Spec newWC))))
               else wcrestriction_nodeRestriction p a newWC
           | _ \<Rightarrow>
               Some (NewForbidden a (''expected type WorkloadCertificate, got: '' @ typeName (attrOldObject a))))
        else None
      else None)"

lemma decodeBody_le: "decodeBody typeLine headers rest = Some (p, rest') \<Longrightarrow> length rest' \<le> length rest"
proof -
  assume a: "decodeBody typeLine headers rest = Some (p, rest')"
  then obtain k where "rest' = snd (getLine (drop k rest))"
    by (auto simp: decodeBody_def Let_def split: option.splits if_splits prod.splits)
  with getLine_rest_le[of "drop k rest"] show ?thesis by simp
qed

lemma decodeLoop_less: "decodeLoop data rest = (Some p, rest') \<Longrightarrow> length rest' < length rest"
proof (induction data rest rule: decodeLoop.induct)
  case (1 data rest)
  from "1.prems" obtain rest1 where r1: "afterStart rest = Some rest1"
    by (subst (asm) decodeLoop.simps) (auto split: option.splits)
  have l1: "length (snd (getLine rest1)) < length rest"
    using afterStart_less[OF r1] getLine_rest_le[of rest1] by simp
  show ?case
  proof (cases "HasSuffix (fst (getLine rest1)) pemEndOfLine")
    case False
    with "1.prems" r1 have "decodeLoop data (snd (getLine rest1)) = (Some p, rest')"
      by (subst (asm) decodeLoop.simps) simp
    from "1.IH"(2)[OF r1 False this] l1 show ?thesis by simp
  next
    case True
    with "1.prems" r1 obtain headers rest2 where
      h: "readHeaders (snd (getLine rest1)) [] = Some (headers, rest2)"
      by (subst (asm) decodeLoop.simps) (auto split: option.splits)
    from readHeaders_le[OF h] l1 have l2: "length rest2 < length rest" by simp
    let ?t = "take (length (fst (getLine rest1)) - length pemEndOfLine) (fst (getLine rest1))"
    show ?thesis
    proof (cases "decodeBody ?t headers rest2")
      case None
      with "1.prems" r1 True h have "decodeLoop data rest2 = (Some p, rest')"
        by (subst (asm) decodeLoop.simps) simp
      from "1.IH"(1)[OF r1 True h refl None this] l2 show ?thesis by simp
    next
      case (Some res)
      with "1.prems" r1 True h have "res = (p, rest')"
        by (subst (asm) decodeLoop.simps) (auto split: prod.splits)
      with Some decodeBody_le[of ?t headers rest2 p rest'] l2 show ?thesis by simp
    qed
  qed
qed

lemma pem_Decode_less: "pem_Decode data = (Some p, rest) \<Longrightarrow> length rest < length data"
  unfolding pem_Decode_def by (rule decodeLoop_less)

section \<open>Registry strategy of ClusterTrustBundles (pkg/registry/certificates/clustertrustbundle/strategy.go)\<close>

text \<open>\<open>strings.Join\<close>.\<close>

fun Join :: "string list \<Rightarrow> string \<Rightarrow> string" where
  "Join [] sep = []"
| "Join [e] sep = e"
| "Join (e # e' # elems) sep = e @ sep @ Join (e' # elems) sep"

text \<open>A PEM block of type CERTIFICATE without headers, as both the normalizer and the
  trust-bundle manager build it before they encode it.\<close>

definition certificateBlock :: "string \<Rightarrow> pem_Block" where
  "certificateBlock bytes = \<lparr>pemType = ''CERTIFICATE'', pemHeaders = [], pemBytes = bytes\<rparr>"

text \<open>
  The loop of \<open>normalizePEMTrustAnchors\<close>. Its state is the block \<open>b\<close> (or nil), the
  input \<open>rest\<close> after it and the map \<open>blockSet\<close>, whose keys are a set of strings. The loop
  ends with an error at a block of another type, and with the set when no block is left.
\<close>

function normalizeLoop :: "pem_Block option \<times> string \<Rightarrow> string set \<Rightarrow> error + string set" where
  "normalizeLoop (None, rest) blockSet = Inr blockSet"
| "normalizeLoop (Some b, rest) blockSet =
     (if pemType b \<noteq> ''CERTIFICATE'' then Inl (Errorf (''bad block type '' @ quoted (pemType b)))
      else normalizeLoop (pem_Decode rest)
             (insert (pem_EncodeToMemory (certificateBlock (pemBytes b))) blockSet))"
  by pat_completeness auto
termination
proof (relation "measure (\<lambda>(br, blockSet). case fst br of None \<Rightarrow> 0 | Some b \<Rightarrow> Suc (length (snd br)))")
  show "wf (measure (\<lambda>(br, blockSet). case fst br of None \<Rightarrow> 0 | Some b \<Rightarrow> Suc (length (snd br))))"
    by simp
next
  fix b :: pem_Block and rest :: string and blockSet :: "string set"
  show "((pem_Decode rest, insert (pem_EncodeToMemory (certificateBlock (pemBytes b))) blockSet),
         (Some b, rest), blockSet)
        \<in> measure (\<lambda>(br, blockSet). case fst br of None \<Rightarrow> 0 | Some b \<Rightarrow> Suc (length (snd br)))"
  proof (cases "fst (pem_Decode rest)")
    case None
    then show ?thesis by simp
  next
    case (Some p)
    then have "pem_Decode rest = (Some p, snd (pem_Decode rest))" by (simp add: prod_eq_iff)
    from pem_Decode_less[OF this] Some show ?thesis by simp
  qed
qed

text \<open>\<open>normalizePEMTrustAnchors\<close>: the keys of the map in sorted order, joined by \<open>\n\<close>. Go
  ranges over the map in an unspecified order; \<open>sort.Strings\<close> gives the one sorted list of
  its keys.\<close>

definition normalizePEMTrustAnchors :: "string \<Rightarrow> error + string" where
  "normalizePEMTrustAnchors input =
     (case normalizeLoop (pem_Decode input) {} of
        Inl err \<Rightarrow> Inl err
      | Inr blockSet \<Rightarrow> Inr (Join (sorted_list_of_set blockSet) [newline]))"

text \<open>An error of package \<open>field\<close>: its kind, the path of the field, the value and the
  detail.\<close>

datatype field_Error = field_Invalid string string string | field_Forbidden string string

text \<open>
  The validators of the packages \<open>pkg/apis/core/validation\<close> and
  \<open>pkg/apis/certificates/validation\<close>, which are not among the sources; the strategy takes
  them as parameters. \<open>ValidateObjectMeta\<close> gets the metadata, whether a namespace is
  required, the function that validates the name, and the path.
\<close>

record Validators =
  ValidateObjectMeta ::
    "ObjectMeta \<Rightarrow> bool \<Rightarrow> (string \<Rightarrow> bool \<Rightarrow> string list) \<Rightarrow> string \<Rightarrow> field_Error list"
  ValidateObjectMetaUpdate :: "ObjectMeta \<Rightarrow> ObjectMeta \<Rightarrow> string \<Rightarrow> field_Error list"
  ValidateSignerName :: "string \<Rightarrow> string \<Rightarrow> field_Error list"

definition noRestrictionsOnName :: "string \<Rightarrow> bool \<Rightarrow> string list" where
  "noRestrictionsOnName name prefix = []"

text \<open>\<open>strategy.Validate\<close> writes the normalized anchors into the bundle; the model returns
  the errors and the bundle as the function leaves it. The field that the strategy calls
  \<open>PEMTrustAnchors\<close> is the field \<open>TrustBundle\<close> of the API type.\<close>

definition clustertrustbundle_Validate ::
  "Validators \<Rightarrow> ClusterTrustBundle \<Rightarrow> field_Error list \<times> ClusterTrustBundle" where
  "clustertrustbundle_Validate v bundle =
     (let allErrors = ValidateObjectMeta v (ctbObjectMeta bundle) False noRestrictionsOnName ''metadata'';
          allErrors = allErrors @
            (if ctbSignerName (ctbSpec bundle) \<noteq> []
             then ValidateSignerName v ''spec.signerName'' (ctbSignerName (ctbSpec bundle)) else [])
      in case normalizePEMTrustAnchors (TrustBundle (ctbSpec bundle)) of
           Inl err \<Rightarrow>
             (allErrors @ [field_Invalid ''spec.pemTrustAnchors'' ''<pemTrustAnchors after normalization>''
                             ''contains an invalid block''], bundle)
         | Inr pemTrustAnchors \<Rightarrow>
             (allErrors @
                (if pemTrustAnchors = []
                 then [field_Invalid ''spec.pemTrustAnchors'' ''<pemTrustAnchors after normalization>''
                         ''at least one trust anchor must be provided'']
                 else []),
              bundle\<lparr>ctbSpec := (ctbSpec bundle)\<lparr>TrustBundle := pemTrustAnchors\<rparr>\<rparr>))"

definition clustertrustbundle_ValidateUpdate ::
  "Validators \<Rightarrow> ClusterTrustBundle \<Rightarrow> ClusterTrustBundle \<Rightarrow> field_Error list \<times> ClusterTrustBundle" where
  "clustertrustbundle_ValidateUpdate v newBundle oldBundle =
     (case clustertrustbundle_Validate v newBundle of (errs, newBundle') \<Rightarrow>
        (errs
         @ ValidateObjectMetaUpdate v (ctbObjectMeta newBundle') (ctbObjectMeta oldBundle) ''metadata''
         @ (if ctbSignerName (ctbSpec newBundle') \<noteq> ctbSignerName (ctbSpec oldBundle)
            then [field_Forbidden ''spec.signerName'' ''updates may not change the signer name'']
            else []),
         newBundle'))"

section \<open>Trust-bundle manager of the kubelet (clustertrustbundle)\<close>

text \<open>
  The manager reads the informer: whether it has synced, and its lister.
  \<open>metav1.LabelSelectorAsSelector\<close> belongs to the API machinery; label selectors and
  selectors are opaque to the manager, which only passes them on and prints a label
  selector with the verb \<open>%v\<close> of \<open>fmt\<close>.
\<close>

record ('ls, 'sel) InformerManager =
  ctbInformer_HasSynced :: bool
  ctbLister_Get :: "string \<Rightarrow> error + ClusterTrustBundle"
  ctbLister_List :: "'sel \<Rightarrow> error + ClusterTrustBundle list"
  LabelSelectorAsSelector :: "'ls \<Rightarrow> error + 'sel"
  formatLabelSelector :: "'ls \<Rightarrow> string"

definition GetTrustAnchorsByName :: "('ls, 'sel) InformerManager \<Rightarrow> string \<Rightarrow> error + string" where
  "GetTrustAnchorsByName m name =
     (if \<not> ctbInformer_HasSynced m then Inl (Errorf ''ClusterTrustBundle informer has not yet synced'')
      else case ctbLister_Get m name of
             Inl err \<Rightarrow> Inl (Errorf (''while getting ClusterTrustBundle: '' @ Error err))
           | Inr ctb \<Rightarrow> Inr (TrustBundle (ctbSpec ctb)))"

text \<open>The inner loop of \<open>GetTrustAnchorsBySigner\<close>: every block of the bundle, of whatever
  type, puts its bytes into the map \<open>trustAnchorSet\<close>.\<close>

function collectBlocks :: "string \<Rightarrow> string set \<Rightarrow> string set" where
  "collectBlocks rest trustAnchorSet =
     (case pem_Decode rest of
        (None, rest') \<Rightarrow> trustAnchorSet
      | (Some b, rest') \<Rightarrow> collectBlocks rest' (insert (pemBytes b) trustAnchorSet))"
  by pat_completeness auto
termination
  by (relation "measure (\<lambda>(rest, trustAnchorSet). length rest)") (auto dest: pem_Decode_less[OF sym])

declare collectBlocks.simps [simp del]

text \<open>The outer loop, over the listed bundles.\<close>

fun collectBundles :: "string \<Rightarrow> ClusterTrustBundle list \<Rightarrow> string set \<Rightarrow> string set" where
  "collectBundles signerName [] trustAnchorSet = trustAnchorSet"
| "collectBundles signerName (ctb # ctbList) trustAnchorSet =
     (if ctbSignerName (ctbSpec ctb) \<noteq> signerName then collectBundles signerName ctbList trustAnchorSet
      else collectBundles signerName ctbList (collectBlocks (TrustBundle (ctbSpec ctb)) trustAnchorSet))"

text \<open>The last loop: the sorted anchors, each encoded as a CERTIFICATE block.\<close>

definition encodeAnchors :: "string list \<Rightarrow> string" where
  "encodeAnchors trustAnchors = concat (map (\<lambda>ta. pem_EncodeToMemory (certificateBlock ta)) trustAnchors)"

text \<open>\<open>GetTrustAnchorsBySigner\<close>.\<close>

definition GetTrustAnchorsBySigner ::
  "('ls, 'sel) InformerManager \<Rightarrow> string \<Rightarrow> 'ls \<Rightarrow> error + string" where
  "GetTrustAnchorsBySigner m signerName labelSelector =
     (if \<not> ctbInformer_HasSynced m then Inl (Errorf ''ClusterTrustBundle informer has not yet synced'')
      else case LabelSelectorAsSelector m labelSelector of
             Inl err \<Rightarrow> Inl (Errorf (''while parsing label selector: '' @ Error err))
           | Inr selector \<Rightarrow>
          (case ctbLister_List m selector of
             Inl err \<Rightarrow>
               Inl (Errorf (''while listing ClusterTrustBundles matching label selector ''
                            @ formatLabelSelector m labelSelector @ '': '' @ Error err))
           | Inr ctbList \<Rightarrow>
               Inr (encodeAnchors (sorted_list_of_set (collectBundles signerName ctbList {})))))"

text \<open>Every block that \<open>pem.Decode\<close> finds in a text, in order: the blocks that the claims
  about the trust-bundle manager speak of.\<close>

function pemBlocks :: "string \<Rightarrow> pem_Block list" where
  "pemBlocks rest =
     (case pem_Decode rest of
        (None, rest') \<Rightarrow> []
      | (Some b, rest') \<Rightarrow> b # pemBlocks rest')"
  by pat_completeness auto
termination
  by (relation "measure length") (auto dest: pem_Decode_less[OF sym])

declare pemBlocks.simps [simp del]

section \<open>Workload-certificate manager of the kubelet (workloadcertificate)\<close>

text \<open>
  What one call of \<open>GetWorkloadCertificate\<close> reads from outside. The informer cache
  changes while the call waits, so the lister is indexed by the number of reads that the
  call has made before. \<open>ctx_Done k\<close> tells whether the \<open>select\<close> of the \<open>k\<close>-th round of the
  polling loop takes the branch of the cancelled context (otherwise the ticker fires).
  The key pair comes from \<open>ecdsa.GenerateKey\<close> and the two marshalling functions of
  \<open>crypto/x509\<close>; a private key object is opaque, and so is the hash function.
\<close>

record WCManager =
  wcLister_GetAt :: "nat \<Rightarrow> string \<Rightarrow> string \<Rightarrow> error + WorkloadCertificate"
  kc_Create :: "WorkloadCertificate \<Rightarrow> error option"
  kc_Update :: "WorkloadCertificate \<Rightarrow> error option"
  clock_Now :: time
  ctx_Done :: "nat \<Rightarrow> bool"
  ctx_Err :: error
  ecdsa_GenerateKey :: "error + string"
  MarshalPKCS8PrivateKey :: "string \<Rightarrow> error + string"
  MarshalPKIXPublicKey :: "string \<Rightarrow> error + string"
  Sum512_256 :: "string \<Rightarrow> string"

datatype apiCall = CreateCall WorkloadCertificate | UpdateCall WorkloadCertificate

definition keyFileHashAnnotation :: string where
  "keyFileHashAnnotation = ''workloadcertificates.kubelet.kubernetes.io/private-key-file-hash''"

text \<open>Reading a Go map at a key: the zero value when the key is absent.\<close>

definition annotation :: "ObjectMeta \<Rightarrow> string \<Rightarrow> string" where
  "annotation meta k = (case Annotations meta k of None \<Rightarrow> [] | Some v \<Rightarrow> v)"

text \<open>The verb \<open>%d\<close> of \<open>fmt\<close> on an \<open>int\<close>.\<close>

definition decimalInt :: "int \<Rightarrow> string" where
  "decimalInt i = (if i < 0 then ''-'' @ decimal (nat (- i)) else decimal (nat i))"

text \<open>\<open>rekeyWorkloadCertificate\<close> writes the annotation and the public key into the object;
  the model returns the private key and the object.\<close>

definition rekeyWorkloadCertificate :: "WCManager \<Rightarrow> WorkloadCertificate \<Rightarrow> error + string \<times> WorkloadCertificate" where
  "rekeyWorkloadCertificate m wc =
     (case ecdsa_GenerateKey m of
        Inl err \<Rightarrow> Inl (Errorf (''while generating private key: '' @ Error err))
      | Inr privKey \<Rightarrow>
     (case MarshalPKCS8PrivateKey m privKey of
        Inl err \<Rightarrow> Inl (Errorf (''while marshaling private key: '' @ Error err))
      | Inr privKeyBytes \<Rightarrow>
          (let privKeyPEM = pem_EncodeToMemory
                 \<lparr>pemType = ''PRIVATE KEY'', pemHeaders = [], pemBytes = privKeyBytes\<rparr>;
               keyFileHash = Sum512_256 m privKeyPEM
           in case MarshalPKIXPublicKey m privKey of
                Inl err \<Rightarrow> Inl (Errorf (''while marshaling public key: '' @ Error err))
              | Inr pubKeyBytes \<Rightarrow>
                  (let pubKeyPEM = pem_EncodeToMemory
                         \<lparr>pemType = ''PUBLIC KEY'', pemHeaders = [], pemBytes = pubKeyBytes\<rparr>
                   in Inr (privKeyPEM,
                           wc\<lparr>wcObjectMeta := (wcObjectMeta wc)\<lparr>Annotations :=
                                  (Annotations (wcObjectMeta wc))
                                    (keyFileHashAnnotation \<mapsto> base64_Encode keyFileHash)\<rparr>,
                              Spec := (Spec wc)\<lparr>PublicKey := pubKeyPEM\<rparr>\<rparr>)))))"

datatype issuanceStatus = issued | pending | failed

text \<open>The two loops of \<open>isWorkloadCertificateIssued\<close> over the conditions.\<close>

definition isCurrent :: "WorkloadCertificate \<Rightarrow> string \<Rightarrow> WorkloadCertificateCondition \<Rightarrow> bool" where
  "isCurrent wc t cond =
     (Type cond = t \<and> Status cond = ConditionTrue
      \<and> ObservedGeneration cond = Generation (wcObjectMeta wc))"

definition isWorkloadCertificateIssued :: "WorkloadCertificate \<Rightarrow> issuanceStatus \<times> string" where
  "isWorkloadCertificateIssued wc =
     (if length (Certificate (wcStatus wc)) \<noteq> 0
         \<and> CertificateObservedGeneration (wcStatus wc) = Generation (wcObjectMeta wc)
      then (issued, [])
      else case find (isCurrent wc WorkloadCertificateFailed) (Conditions (wcStatus wc)) of
             Some cond \<Rightarrow>
               (failed, ''the WorkloadCertificate failed issuance (reason='' @ Reason cond @ ''): ''
                        @ Message cond)
           | None \<Rightarrow>
          (case find (isCurrent wc WorkloadCertificatePending) (Conditions (wcStatus wc)) of
             Some cond \<Rightarrow>
               (pending, ''the WorkloadCertificate is explicitly pending (reason='' @ quoted (Reason cond)
                         @ ''): '' @ Message cond)
           | None \<Rightarrow> (pending, ''the WorkloadCertificate is implicitly pending'')))"

text \<open>
  The polling loop of \<open>waitForWorkloadCertificateIssuance\<close>, from its \<open>k\<close>-th round on; the
  read of round \<open>k\<close> is the read number \<open>first + k\<close> of the call. The loop has no bound: the
  result is \<open>None\<close> when it never returns.
\<close>

partial_function (option) pollIssuance ::
  "WCManager \<Rightarrow> string \<Rightarrow> string \<Rightarrow> nat \<Rightarrow> nat \<Rightarrow> (error + WorkloadCertificate) option" where
  "pollIssuance m namespace name first k =
     (if ctx_Done m k then Some (Inl (Errorf (''context cancelled: '' @ Error (ctx_Err m))))
      else case wcLister_GetAt m (first + k) namespace name of
             Inl err \<Rightarrow>
               Some (Inl (Errorf (''while retrieving WorkloadCertificate from informer cache: '' @ Error err)))
           | Inr wc \<Rightarrow>
               (case isWorkloadCertificateIssued wc of
                  (issued, msg) \<Rightarrow> Some (Inr wc)
                | (failed, msg) \<Rightarrow> Some (Inl (Errorf msg))
                | (pending, msg) \<Rightarrow> pollIssuance m namespace name first (Suc k)))"

declare pollIssuance.simps [code]

text \<open>\<open>waitForWorkloadCertificateIssuance\<close>; \<open>n\<close> is the number of its first read.\<close>

definition waitForWorkloadCertificateIssuance ::
  "WCManager \<Rightarrow> string \<Rightarrow> string \<Rightarrow> nat \<Rightarrow> (error + WorkloadCertificate) option" where
  "waitForWorkloadCertificateIssuance m namespace name n =
     (case wcLister_GetAt m n namespace name of
        Inl err \<Rightarrow>
          Some (Inl (Errorf (''while retrieving WorkloadCertificate from informer cache: '' @ Error err)))
      | Inr wc \<Rightarrow>
          (case isWorkloadCertificateIssued wc of
             (issued, msg) \<Rightarrow> Some (Inr wc)
           | (failed, msg) \<Rightarrow> Some (Inl (Errorf msg))
           | (pending, msg) \<Rightarrow> pollIssuance m namespace name (Suc n) 0))"

text \<open>The end of each of the three paths of \<open>GetWorkloadCertificate\<close>: wait for the
  issuance and return the private key of the path with the certificate.\<close>

definition awaitAndReturn ::
  "WCManager \<Rightarrow> string \<Rightarrow> string \<Rightarrow> string \<Rightarrow> (error + string \<times> string) option" where
  "awaitAndReturn m namespace wcName privKeyPEM =
     (case waitForWorkloadCertificateIssuance m namespace wcName 1 of
        None \<Rightarrow> None
      | Some (Inl err) \<Rightarrow>
          Some (Inl (Errorf (''while waiting for WorkloadCertificate to be issued: '' @ Error err)))
      | Some (Inr wc) \<Rightarrow> Some (Inr (privKeyPEM, Certificate (wcStatus wc))))"

text \<open>
  \<open>GetWorkloadCertificate\<close>: the result (the private key and the certificate, or an
  error; \<open>None\<close> when the wait never ends) and the calls made to the API server. The body
  of the \<open>if\<close> that compares the annotation with \<open>keyFileHash\<close> is a comment and no
  statement: both branches of the comparison go on with the check of the refresh time.
\<close>

definition GetWorkloadCertificate ::
  "WCManager \<Rightarrow> string \<Rightarrow> string \<Rightarrow> string \<Rightarrow> string \<Rightarrow> string \<Rightarrow> int \<Rightarrow> string \<Rightarrow>
   (error + string \<times> string) option \<times> apiCall list" where
  "GetWorkloadCertificate m signerName namespace podName podUID volumeName sourceIndex keyFileHash =
     (let wcName = ''kubelet-'' @ podName @ ''-'' @ volumeName @ ''-'' @ decimalInt sourceIndex
      in case wcLister_GetAt m 0 namespace wcName of
           Inl err \<Rightarrow>
             if IsNotFound err then
               (case rekeyWorkloadCertificate m
                       \<lparr>wcObjectMeta = \<lparr>Name = wcName, Namespace = namespace, Generation = 0,
                                         ResourceVersion = [], Annotations = Map.empty,
                                         Labels = Map.empty\<rparr>,
                        Spec = \<lparr>SignerName = signerName, ServiceAccount = [], Pod = podName,
                                 PodUID = podUID, Node = [], Requester = [], PublicKey = []\<rparr>,
                        wcStatus = \<lparr>Conditions = [], Certificate = [],
                                     CertificateObservedGeneration = 0, NotBefore = zeroTime,
                                     NotAfter = zeroTime, BeginRefreshAt = zeroTime\<rparr>\<rparr> of
                  Inl err \<Rightarrow>
                    (Some (Inl (Errorf (''while initially keying WorkloadCertificate: '' @ Error err))), [])
                | Inr (privKeyPEM, wc) \<Rightarrow>
                    (case kc_Create m wc of
                       Some err \<Rightarrow>
                         (Some (Inl (Errorf (''while creating WorkloadCertificate: '' @ Error err))),
                          [CreateCall wc])
                     | None \<Rightarrow> (awaitAndReturn m namespace wcName privKeyPEM, [CreateCall wc])))
             else (Some (Inl (Errorf (''while fetching WorkloadCertificate from informer cache: ''
                                      @ Error err))), [])
         | Inr wc \<Rightarrow>
             (let afterHashCheck =
                    (if time_After (clock_Now m) (BeginRefreshAt (wcStatus wc)) then
                       (case rekeyWorkloadCertificate m wc of
                          Inl err \<Rightarrow>
                            (Some (Inl (Errorf (''while rekeying WorkloadCertificate: '' @ Error err))), [])
                        | Inr (privKeyPEM, newWC) \<Rightarrow>
                            (case kc_Update m newWC of
                               Some err \<Rightarrow>
                                 (Some (Inl (Errorf (''while creating WorkloadCertificate: '' @ Error err))),
                                  [UpdateCall newWC])
                             | None \<Rightarrow>
                                 (awaitAndReturn m namespace wcName privKeyPEM, [UpdateCall newWC])))
                     else (awaitAndReturn m namespace wcName [], []))
              in if annotation (wcObjectMeta wc) keyFileHashAnnotation \<noteq> keyFileHash
                 then afterHashCheck
                 else afterHashCheck))"

text \<open>
  A manager at clock 10 hours whose cache holds the request \<open>n1/kubelet-p1-vol-0\<close>, issued
  at its current generation with a refresh time of 18 hours, and annotated with the hash
  \<open>aGFzaDE=\<close> of the key file that the manager wrote.
\<close>

definition exIssued :: WorkloadCertificate where
  "exIssued =
     \<lparr>wcObjectMeta = \<lparr>Name = ''kubelet-p1-vol-0'', Namespace = ''n1'', Generation = 1,
                       ResourceVersion = ''9'',
                       Annotations = [keyFileHashAnnotation \<mapsto> ''aGFzaDE=''],
                       Labels = Map.empty\<rparr>,
      Spec = \<lparr>SignerName = DefaultWorkloadCertificateSignerName, ServiceAccount = ''sa1'', Pod = ''p1'',
               PodUID = ''u1'', Node = ''node-a'', Requester = ''system:node:node-a'',
               PublicKey = ''PUBLIC KEY 1''\<rparr>,
      wcStatus = \<lparr>Conditions = [], Certificate = ''CERTIFICATE 1'', CertificateObservedGeneration = 1,
                   NotBefore = 0, NotAfter = 24 * Hour, BeginRefreshAt = 18 * Hour\<rparr>\<rparr>"

definition exManager :: WCManager where
  "exManager =
     \<lparr>wcLister_GetAt = (\<lambda>n namespace name.
         if namespace = ''n1'' \<and> name = ''kubelet-p1-vol-0'' then Inr exIssued
         else Inl (StatusNotFound ''workloadcertificate not found'')),
      kc_Create = (\<lambda>wc. None),
      kc_Update = (\<lambda>wc. None),
      clock_Now = 10 * Hour,
      ctx_Done = (\<lambda>k. False),
      ctx_Err = Errorf ''context canceled'',
      ecdsa_GenerateKey = Inr ''key2'',
      MarshalPKCS8PrivateKey = (\<lambda>k. Inr (''pkcs8 '' @ k)),
      MarshalPKIXPublicKey = (\<lambda>k. Inr (''pkix '' @ k)),
      Sum512_256 = (\<lambda>b. ''hash2'')\<rparr>"

section \<open>Concrete objects\<close>

text \<open>
  The objects of scenario E1 of the specification: a request \<open>n1/wc1\<close> for pod \<open>p1\<close> (UID
  \<open>u1\<close>, service account \<open>sa1\<close>, node \<open>node-a\<close>). The request of the examples carries a
  public key text in which the parser finds two keys, as in scenario E4, and three
  conditions: one of another type (Ready), a Failed condition of generation 0 and a
  Pending condition of an earlier reconcile.
\<close>

definition exRequest :: "string \<Rightarrow> string \<Rightarrow> WorkloadCertificate" where
  "exRequest signer requester =
     \<lparr>wcObjectMeta = \<lparr>Name = ''wc1'', Namespace = ''n1'', Generation = 1, ResourceVersion = ''7'',
                       Annotations = Map.empty, Labels = Map.empty\<rparr>,
      Spec = \<lparr>SignerName = signer, ServiceAccount = ''sa1'', Pod = ''p1'', PodUID = ''u1'',
               Node = ''node-a'', Requester = requester, PublicKey = ''PK PK''\<rparr>,
      wcStatus = \<lparr>Conditions = [\<lparr>Type = ''Ready'', Status = ''False'', Reason = ''NotIssued'',
                                   Message = [], ObservedGeneration = 1,
                                   LastUpdateTime = 0, LastTransitionTime = 0\<rparr>,
                                  \<lparr>Type = ''Failed'', Status = ''True'', Reason = ''SigningFailure'',
                                   Message = ''Failed to sign certificate: no key'',
                                   ObservedGeneration = 0,
                                   LastUpdateTime = 0, LastTransitionTime = 0\<rparr>,
                                  \<lparr>Type = ''Pending'', Status = ''True'', Reason = ''Waiting'',
                                   Message = [], ObservedGeneration = 1,
                                   LastUpdateTime = 0, LastTransitionTime = 0\<rparr>],
                   Certificate = [], CertificateObservedGeneration = 0,
                   NotBefore = 0, NotAfter = 0, BeginRefreshAt = 0\<rparr>\<rparr>"

text \<open>A controller whose cache holds that request, whose CA files hold one certificate and
  one key, and whose parser of public keys finds one key per word \<open>PK\<close>. The clock stands
  at 2000 hours.\<close>

definition exController :: "string \<Rightarrow> Controller" where
  "exController signer =
     \<lparr>wcLister_Get = (\<lambda>namespace name.
         if namespace = ''n1'' \<and> name = ''wc1'' then Inr (exRequest signer ''system:node:node-a'')
         else Inl (StatusNotFound ''workloadcertificate not found'')),
      kc_UpdateStatus = (\<lambda>wc. None),
      kubeAPIServerClientKeyPair = (''CA1'', ''KEY1''),
      defaultWorkloadCertificateKeyPair = (''CA2'', ''KEY2''),
      time_Now = 2000 * Hour,
      rand_Int = (\<lambda>limit. Inr 7),
      SplitMetaNamespaceKey = (\<lambda>key.
         if key = ''n1/wc1'' then Inr (''n1'', ''wc1'') else Inl (Errorf ''unexpected key format'')),
      ParseCertsPEM = (\<lambda>certPEM.
         if certPEM = ''CA1'' then Inr [''ca1''] else if certPEM = ''CA2'' then Inr [''ca2'']
         else Inl (Errorf ''data does not contain any valid RSA or ECDSA certificates'')),
      ParsePrivateKeyPEM = (\<lambda>keyPEM. Inr keyPEM),
      ParsePublicKeysPEM = (\<lambda>text.
         if text = ''PK PK'' then ([''pk'', ''pk''], None)
         else if text = ''PK'' then ([''pk''], None)
         else ([], Some (Errorf ''data does not contain any valid RSA or ECDSA public keys''))),
      CreateCertificate = (\<lambda>tmpl parent pub priv. Inr ''der''),
      EncodeToMemory = pem_EncodeToMemory\<rparr>"

text \<open>The same controller with an API server that refuses the status update.\<close>

definition exControllerConflict :: "string \<Rightarrow> Controller" where
  "exControllerConflict signer =
     (exController signer)\<lparr>kc_UpdateStatus := (\<lambda>wc. Some (Errorf ''conflict''))\<rparr>"

text \<open>The same controller with a CA file in which no certificate is found.\<close>

definition exControllerNoCA :: "string \<Rightarrow> Controller" where
  "exControllerNoCA signer =
     (exController signer)\<lparr>kubeAPIServerClientKeyPair := ([], []),
                             defaultWorkloadCertificateKeyPair := ([], [])\<rparr>"

text \<open>The conditions of a written object are settled when none is Pending and at most one
  is Failed.\<close>

definition conditionsSettled :: "WorkloadCertificate \<Rightarrow> bool" where
  "conditionsSettled w =
     (countType WorkloadCertificatePending (Conditions (wcStatus w)) = 0
      \<and> countType WorkloadCertificateFailed (Conditions (wcStatus w)) \<le> 1)"

text \<open>The admission of an update of the request by a user; the plugin of the examples
  knows pod \<open>n1/p1\<close> and authorizes nobody.\<close>

definition exPlugin :: Plugin where
  "exPlugin =
     \<lparr>authz = (\<lambda>user verb signerName. False),
      enabled = True,
      podLister_Get = (\<lambda>namespace name.
         if namespace = ''n1'' \<and> name = ''p1''
         then Inr \<lparr>podObjectUID = ''u1'', podServiceAccountName = ''sa1'', podNodeName = ''node-a''\<rparr>
         else Inl (StatusNotFound ''pod not found''))\<rparr>"

definition exUpdate :: "string \<Rightarrow> string \<Rightarrow> Attributes" where
  "exUpdate user requester =
     \<lparr>attrResource = api_Resource ''workloadcertificates'',
      attrSubresource = [],
      attrOperation = Update,
      attrUserInfo = \<lparr>userName = user, userGroups = []\<rparr>,
      attrObject = WorkloadCertificateObject (exRequest DefaultWorkloadCertificateSignerName requester),
      attrOldObject = WorkloadCertificateObject (exRequest DefaultWorkloadCertificateSignerName requester)\<rparr>"

text \<open>The creation of a trust bundle for signer \<open>example.com/foo\<close>.\<close>

definition exBundle :: "string \<Rightarrow> string \<Rightarrow> string \<Rightarrow> ClusterTrustBundle" where
  "exBundle name signer anchors =
     \<lparr>ctbObjectMeta = \<lparr>Name = name, Namespace = [], Generation = 1, ResourceVersion = ''1'',
                        Annotations = Map.empty, Labels = Map.empty\<rparr>,
      ctbSpec = \<lparr>ctbSignerName = signer, TrustBundle = anchors\<rparr>\<rparr>"

definition exCreateBundle :: "string \<Rightarrow> Attributes" where
  "exCreateBundle signer =
     \<lparr>attrResource = api_Resource ''clustertrustbundles'',
      attrSubresource = [],
      attrOperation = Create,
      attrUserInfo = \<lparr>userName = ''alice'', userGroups = []\<rparr>,
      attrObject = ClusterTrustBundleObject (exBundle ''example.com:foo:v1'' signer []),
      attrOldObject = NilObject\<rparr>"

text \<open>Stand-ins for the validators that are not among the sources: the metadata validator
  reports what the name function reports, and a signer name needs a slash. The anchors
  of the examples are certificate blocks with the bytes \<open>abc\<close> and \<open>xy\<close>.\<close>

definition exValidators :: Validators where
  "exValidators =
     \<lparr>ValidateObjectMeta = (\<lambda>meta requiresNamespace nameFn fldPath.
         map (field_Invalid (fldPath @ ''.name'') (Name meta)) (nameFn (Name meta) False)),
      ValidateObjectMetaUpdate = (\<lambda>newMeta oldMeta fldPath. []),
      ValidateSignerName = (\<lambda>fldPath signerName.
         if CHR ''/'' \<in> set signerName then []
         else [field_Invalid fldPath signerName
                 ''must be a fully qualified domain and path of the form example.com/signer-name''])\<rparr>"

definition exAnchorABC :: string where
  "exAnchorABC = pem_EncodeToMemory (certificateBlock ''abc'')"

definition exAnchorXY :: string where
  "exAnchorXY = pem_EncodeToMemory (certificateBlock ''xy'')"

text \<open>A synced trust-bundle manager whose lister returns three bundles for the selector
  \<open>all\<close>: two of signer \<open>example.com/foo\<close> that share the anchor \<open>abc\<close>, and one of another
  signer.\<close>

definition exBundleManager :: "(string, string) InformerManager" where
  "exBundleManager =
     \<lparr>ctbInformer_HasSynced = True,
      ctbLister_Get = (\<lambda>name. Inl (StatusNotFound ''clustertrustbundle not found'')),
      ctbLister_List = (\<lambda>selector.
         if selector = ''all''
         then Inr [exBundle ''example.com:foo:v1'' ''example.com/foo'' (exAnchorXY @ exAnchorABC),
                   exBundle ''example.com:bar:v1'' ''example.com/bar'' (pem_EncodeToMemory (certificateBlock ''other'')),
                   exBundle ''example.com:foo:v2'' ''example.com/foo'' exAnchorABC]
         else Inr []),
      LabelSelectorAsSelector = (\<lambda>labelSelector.
         if labelSelector = [] then Inr ''all'' else Inl (Errorf ''invalid label selector'')),
      formatLabelSelector = (\<lambda>labelSelector. ''{'' @ labelSelector @ ''}'')\<rparr>"

section \<open>Frame property of status updates\<close>

text \<open>
  Claim C9. An update made through the status subresource is prepared by
  \<open>statusStrategy.PrepareForUpdate\<close> and \<open>statusStrategy.Canonicalize\<close> before it is stored.
  The object that results has the spec of the old object, whatever spec the caller sent,
  and keeps the metadata and the status the caller sent.
\<close>

theorem status_update_keeps_spec:
  "Spec (statusStrategy_Canonicalize (statusStrategy_PrepareForUpdate newWC oldWC)) = Spec oldWC
   \<and> wcStatus (statusStrategy_Canonicalize (statusStrategy_PrepareForUpdate newWC oldWC)) = wcStatus newWC
   \<and> wcObjectMeta (statusStrategy_Canonicalize (statusStrategy_PrepareForUpdate newWC oldWC)) = wcObjectMeta newWC"
  by (simp add: statusStrategy_Canonicalize_def statusStrategy_PrepareForUpdate_def)

section \<open>Signing controller: status writes\<close>

lemma clearFailedAndPending_filter:
  "clearFailedAndPending conds acc =
     acc @ filter (\<lambda>cond. Type cond \<noteq> WorkloadCertificateFailed \<and> Type cond \<noteq> WorkloadCertificatePending) conds"
  by (induction conds arbitrary: acc) auto

lemma countType_cleared_Failed:
  "countType WorkloadCertificateFailed (clearFailedAndPending conds []) = 0"
  by (auto simp: countType_def clearFailedAndPending_filter filter_empty_conv)

lemma countType_cleared_Pending:
  "countType WorkloadCertificatePending (clearFailedAndPending conds []) = 0"
  by (auto simp: countType_def clearFailedAndPending_filter filter_empty_conv)

lemma countType_append: "countType t (xs @ ys) = countType t xs + countType t ys"
  by (simp add: countType_def)

lemma Failed_neq_Pending: "WorkloadCertificateFailed \<noteq> WorkloadCertificatePending"
  by (simp add: WorkloadCertificateFailed_def WorkloadCertificatePending_def)

lemma snd_wrapErr: "snd (wrapErr prefix res) = snd res"
  by (simp add: wrapErr_def split: option.split)

lemma fst_wrapErr_None: "(fst (wrapErr prefix res) = None) = (fst res = None)"
  by (simp add: wrapErr_def split: option.split)

lemma setWCFailed_writes:
  "\<exists>w. snd (setWCFailed c wc reason message) = [w]
     \<and> countType WorkloadCertificatePending (Conditions (wcStatus w)) = 0
     \<and> countType WorkloadCertificateFailed (Conditions (wcStatus w)) = 1"
  using Failed_neq_Pending
  by (simp add: setWCFailed_def Let_def snd_wrapErr countType_append countType_cleared_Failed
        countType_cleared_Pending)
     (simp add: countType_def)

lemma setWCIssued_writes:
  "\<exists>w. snd (setWCIssued c wc issuedPEM notBefore notAfter beginRefreshAt) = [w]
     \<and> countType WorkloadCertificatePending (Conditions (wcStatus w)) = 0
     \<and> countType WorkloadCertificateFailed (Conditions (wcStatus w)) = 0"
  by (simp add: setWCIssued_def Let_def snd_wrapErr countType_cleared_Failed countType_cleared_Pending)

lemma setWCFailed_settled: "list_all conditionsSettled (snd (setWCFailed c wc reason message))"
  using setWCFailed_writes[of c wc reason message] by (auto simp: conditionsSettled_def)

lemma setWCIssued_settled:
  "list_all conditionsSettled (snd (setWCIssued c wc issuedPEM notBefore notAfter beginRefreshAt))"
  using setWCIssued_writes[of c wc issuedPEM notBefore notAfter beginRefreshAt]
  by (auto simp: conditionsSettled_def)

lemma issueWith_settled: "list_all conditionsSettled (snd (issueWith c keyPair template wc))"
  unfolding issueWith_def Let_def
  by (simp add: snd_wrapErr setWCFailed_settled setWCIssued_settled
        split: prod.split sum.split list.split option.split)

lemma handleWorkloadCertificate_settled:
  "list_all conditionsSettled (snd (handleWorkloadCertificate c key))"
  unfolding handleWorkloadCertificate_def
  by (simp add: snd_wrapErr issueWith_settled issueKubeAPIServerClientCert_def
        issueDefaultWorkloadCertificate_def split: prod.split sum.split)

text \<open>
  Claim C10. Every object that a reconcile of the signing controller submits to
  \<open>UpdateStatus\<close> has no condition of type Pending and at most one of type Failed. The
  write of \<open>setWCFailed\<close> has exactly one Failed condition, and the write of \<open>setWCIssued\<close>, the
  successful issuance, has no Failed and no Pending condition.
\<close>

theorem status_writes_clear_conditions:
  "list_all conditionsSettled (snd (handleWorkloadCertificate c key))
   \<and> (\<exists>w. snd (setWCFailed c wc reason message) = [w]
          \<and> countType WorkloadCertificatePending (Conditions (wcStatus w)) = 0
          \<and> countType WorkloadCertificateFailed (Conditions (wcStatus w)) = 1)
   \<and> (\<exists>w. snd (setWCIssued c wc issuedPEM notBefore notAfter beginRefreshAt) = [w]
          \<and> countType WorkloadCertificatePending (Conditions (wcStatus w)) = 0
          \<and> countType WorkloadCertificateFailed (Conditions (wcStatus w)) = 0)"
  using handleWorkloadCertificate_settled setWCFailed_writes setWCIssued_writes by blast

section \<open>Signing controller: certificate templates\<close>

lemma defaultWorkloadCertificateTemplate_fields:
  "defaultWorkloadCertificateTemplate c wc notBefore notAfter = Inr tmpl \<Longrightarrow>
     Subject_CommonName tmpl
       = ''system:serviceaccount:'' @ Namespace (wcObjectMeta wc) @ '':'' @ ServiceAccount (Spec wc)
     \<and> KeyUsage tmpl = KeyUsageDataEncipherment OR KeyUsageKeyAgreement OR KeyUsageKeyEncipherment
     \<and> ExtKeyUsage tmpl = [ExtKeyUsageClientAuth, ExtKeyUsageServerAuth]
     \<and> BasicConstraintsValid tmpl
     \<and> tmplNotBefore tmpl = notBefore \<and> tmplNotAfter tmpl = notAfter"
  by (auto simp: defaultWorkloadCertificateTemplate_def split: sum.splits)

lemma apiserverClientCertificateTemplate_fields:
  "apiserverClientCertificateTemplate c wc notBefore notAfter = Inr tmpl \<Longrightarrow>
     Subject_CommonName tmpl
       = ''system:serviceaccount:'' @ Namespace (wcObjectMeta wc) @ '':'' @ ServiceAccount (Spec wc)
     \<and> KeyUsage tmpl = KeyUsageDataEncipherment OR KeyUsageKeyAgreement OR KeyUsageKeyEncipherment
     \<and> ExtKeyUsage tmpl = [ExtKeyUsageClientAuth, ExtKeyUsageServerAuth]
     \<and> BasicConstraintsValid tmpl
     \<and> tmplNotBefore tmpl = zeroTime \<and> tmplNotAfter tmpl = zeroTime"
  by (auto simp: apiserverClientCertificateTemplate_def split: sum.splits)

text \<open>
  Claim C4. The template that \<open>apiserverClientCertificateTemplate\<close> builds for a request
  to \<open>kubernetes.io/kube-apiserver-client\<close> has the subject, the key usages and the basic
  constraints of the claim, but its \<open>NotBefore\<close> and \<open>NotAfter\<close> are the zero time: at a
  clock of 2000 hours the function is called with \<open>notBefore\<close> 1999 hours and 55 minutes
  and \<open>notAfter\<close> 24 hours later, and writes neither into the template.
\<close>

theorem apiserver_template_without_validity:
  "apiserverClientCertificateTemplate (exController KubeAPIServerClientSignerName)
     (exRequest KubeAPIServerClientSignerName ''system:node:node-a'')
     (time_Add (time_Now (exController KubeAPIServerClientSignerName)) (- 5 * Minute))
     (time_Add (time_Add (time_Now (exController KubeAPIServerClientSignerName)) (- 5 * Minute)) (24 * Hour))
   = Inr \<lparr>SerialNumber = 7,
          Subject_CommonName = ''system:serviceaccount:n1:sa1'',
          KeyUsage = 28,
          ExtKeyUsage = [ExtKeyUsageClientAuth, ExtKeyUsageServerAuth],
          BasicConstraintsValid = True,
          tmplNotBefore = 0,
          tmplNotAfter = 0\<rparr>
   \<and> time_Add (time_Now (exController KubeAPIServerClientSignerName)) (- 5 * Minute) = 7199700000000000"
  by (simp add: apiserverClientCertificateTemplate_def exController_def exRequest_def zeroTime_def
        KeyUsageDataEncipherment_def KeyUsageKeyAgreement_def KeyUsageKeyEncipherment_def
        time_Add_def Minute_def Second_def Hour_def)

section \<open>Signing controller: a bad public key\<close>

lemma builtin_signers_differ: "DefaultWorkloadCertificateSignerName \<noteq> KubeAPIServerClientSignerName"
  by (simp add: DefaultWorkloadCertificateSignerName_def KubeAPIServerClientSignerName_def)

lemma fst_setWCFailed:
  "fst (setWCFailed c wc reason message) = None \<longleftrightarrow>
     kc_UpdateStatus c (hd (snd (setWCFailed c wc reason message))) = None"
  by (simp add: setWCFailed_def Let_def snd_wrapErr fst_wrapErr_None)

lemma setWCFailed_write:
  "snd (setWCFailed c wc reason message) =
     [wc\<lparr>wcStatus := (wcStatus wc)\<lparr>Conditions :=
          clearFailedAndPending (Conditions (wcStatus wc)) []
          @ [\<lparr>Type = WorkloadCertificateFailed, Status = ConditionTrue, Reason = reason,
               Message = message, ObservedGeneration = Generation (wcObjectMeta wc),
               LastUpdateTime = zeroTime, LastTransitionTime = zeroTime\<rparr>]\<rparr>\<rparr>]"
  by (simp add: setWCFailed_def Let_def snd_wrapErr)

lemma issueWith_bad_public_key:
  assumes "ParseCertsPEM c (fst keyPair) = Inr [caCert]"
    and "ParsePrivateKeyPEM c (snd keyPair) = Inr caPrivKey"
    and "ParsePublicKeysPEM c (PublicKey (Spec wc)) = (pubKeyObjs, perr)"
    and "perr \<noteq> None \<or> length pubKeyObjs \<noteq> 1"
  shows "issueWith c keyPair template wc =
           wrapErr ''while marking WorkloadCertificate failed: ''
             (setWCFailed c wc ''BadPublicKey''
                (''Public key contained '' @ decimal (length pubKeyObjs) @ '' keys, wanted 1''))"
proof (cases perr)
  case (Some err)
  with assms(1-3) show ?thesis
    by (cases keyPair) (simp add: issueWith_def)
next
  case None
  with assms(4) have "length pubKeyObjs \<noteq> 1" by simp
  then have "(\<exists>k. pubKeyObjs = [k]) = False" by auto
  with None assms(1-3) show ?thesis
    by (cases keyPair; cases pubKeyObjs; cases "tl pubKeyObjs") (simp_all add: issueWith_def)
qed

text \<open>
  Claim C5, as amended. Take a reconcile that reaches the check of the public key: the
  key splits, the request is in the cache and has no certificate issued at its current
  generation, it is addressed to one of the two built-in signers, and the CA file of that
  signer holds exactly one certificate and a key that parses. If the public key of the
  request does not parse, or holds a number of keys other than one, the controller submits
  exactly one status update. The conditions of the object submitted are those conditions
  of the cached object whose type is neither Failed nor Pending, in their order, followed
  by one condition Failed with status True, reason BadPublicKey and the generation of the
  object; its certificate, its spec and its metadata are those of the cached object. The reconcile returns success exactly when the API server accepts
  that update.
\<close>

theorem bad_public_key_marks_failed:
  assumes "SplitMetaNamespaceKey c key = Inr (namespace, name)"
    and "wcLister_Get c namespace name = Inr wc"
    and "Certificate (wcStatus wc) = []
         \<or> CertificateObservedGeneration (wcStatus wc) \<noteq> Generation (wcObjectMeta wc)"
    and "SignerName (Spec wc) = KubeAPIServerClientSignerName \<and> keyPair = kubeAPIServerClientKeyPair c
         \<or> SignerName (Spec wc) = DefaultWorkloadCertificateSignerName
            \<and> keyPair = defaultWorkloadCertificateKeyPair c"
    and "ParseCertsPEM c (fst keyPair) = Inr [caCert]"
    and "ParsePrivateKeyPEM c (snd keyPair) = Inr caPrivKey"
    and "ParsePublicKeysPEM c (PublicKey (Spec wc)) = (pubKeyObjs, perr)"
    and "perr \<noteq> None \<or> length pubKeyObjs \<noteq> 1"
  shows "\<exists>w. snd (handleWorkloadCertificate c key) = [w]
           \<and> Conditions (wcStatus w) =
               filter (\<lambda>cond. Type cond \<noteq> WorkloadCertificateFailed
                              \<and> Type cond \<noteq> WorkloadCertificatePending)
                 (Conditions (wcStatus wc))
               @ [\<lparr>Type = WorkloadCertificateFailed, Status = ConditionTrue, Reason = ''BadPublicKey'',
                    Message = ''Public key contained '' @ decimal (length pubKeyObjs) @ '' keys, wanted 1'',
                    ObservedGeneration = Generation (wcObjectMeta wc),
                    LastUpdateTime = zeroTime, LastTransitionTime = zeroTime\<rparr>]
           \<and> Certificate (wcStatus w) = Certificate (wcStatus wc)
           \<and> Spec w = Spec wc
           \<and> wcObjectMeta w = wcObjectMeta wc
           \<and> (fst (handleWorkloadCertificate c key) = None) = (kc_UpdateStatus c w = None)"
proof -
  let ?failed = "setWCFailed c wc ''BadPublicKey''
                   (''Public key contained '' @ decimal (length pubKeyObjs) @ '' keys, wanted 1'')"
  have issue: "issueWith c keyPair template wc =
                 wrapErr ''while marking WorkloadCertificate failed: '' ?failed" for template
    by (rule issueWith_bad_public_key[OF assms(5-8)])
  from assms(3) have notIssued:
    "(Certificate (wcStatus wc) \<noteq> []
        \<and> CertificateObservedGeneration (wcStatus wc) = Generation (wcObjectMeta wc)) = False"
    by auto
  let ?p = "''while issuing certificate for '' @ SignerName (Spec wc) @ '': ''"
  have h: "handleWorkloadCertificate c key
             = wrapErr ?p (wrapErr ''while marking WorkloadCertificate failed: '' ?failed)"
    using assms(4)
  proof
    assume kube: "SignerName (Spec wc) = KubeAPIServerClientSignerName \<and> keyPair = kubeAPIServerClientKeyPair c"
    from kube have "handleWorkloadCertificate c key
        = wrapErr ?p (issueWith c keyPair apiserverClientCertificateTemplate wc)"
      using assms(1,2)
      by (simp add: handleWorkloadCertificate_def issueKubeAPIServerClientCert_def notIssued)
    then show ?thesis by (simp only: issue)
  next
    assume dflt: "SignerName (Spec wc) = DefaultWorkloadCertificateSignerName
                  \<and> keyPair = defaultWorkloadCertificateKeyPair c"
    from dflt have "handleWorkloadCertificate c key
        = wrapErr ?p (issueWith c keyPair defaultWorkloadCertificateTemplate wc)"
      using assms(1,2) builtin_signers_differ
      by (simp add: handleWorkloadCertificate_def issueDefaultWorkloadCertificate_def notIssued)
    then show ?thesis by (simp only: issue)
  qed
  have s: "snd (handleWorkloadCertificate c key) = snd ?failed"
    by (simp add: h snd_wrapErr)
  have f: "(fst (handleWorkloadCertificate c key) = None) = (fst ?failed = None)"
    by (simp add: h fst_wrapErr_None)
  show ?thesis
    unfolding s f fst_setWCFailed setWCFailed_write
    by (simp add: clearFailedAndPending_filter)
qed

lemma decimal_2: "decimal (Suc (Suc 0)) = ''2''"
  by code_simp

theorem bad_public_key_marks_failed_witness:
  "SplitMetaNamespaceKey (exController DefaultWorkloadCertificateSignerName) ''n1/wc1'' = Inr (''n1'', ''wc1'')
   \<and> wcLister_Get (exController DefaultWorkloadCertificateSignerName) ''n1'' ''wc1''
       = Inr (exRequest DefaultWorkloadCertificateSignerName ''system:node:node-a'')
   \<and> Certificate (wcStatus (exRequest DefaultWorkloadCertificateSignerName ''system:node:node-a'')) = []
   \<and> SignerName (Spec (exRequest DefaultWorkloadCertificateSignerName ''system:node:node-a''))
       = DefaultWorkloadCertificateSignerName
   \<and> ParseCertsPEM (exController DefaultWorkloadCertificateSignerName) ''CA2'' = Inr [''ca2'']
   \<and> ParsePrivateKeyPEM (exController DefaultWorkloadCertificateSignerName) ''KEY2'' = Inr ''KEY2''
   \<and> ParsePublicKeysPEM (exController DefaultWorkloadCertificateSignerName) ''PK PK'' = ([''pk'', ''pk''], None)
   \<and> map (\<lambda>w. Conditions (wcStatus w))
         (snd (handleWorkloadCertificate (exController DefaultWorkloadCertificateSignerName) ''n1/wc1''))
       = [[\<lparr>Type = ''Ready'', Status = ''False'', Reason = ''NotIssued'',
             Message = [], ObservedGeneration = 1,
             LastUpdateTime = 0, LastTransitionTime = 0\<rparr>,
            \<lparr>Type = ''Failed'', Status = ''True'', Reason = ''BadPublicKey'',
             Message = ''Public key contained 2 keys, wanted 1'', ObservedGeneration = 1,
             LastUpdateTime = 0, LastTransitionTime = 0\<rparr>]]
   \<and> map (\<lambda>w. Certificate (wcStatus w))
         (snd (handleWorkloadCertificate (exController DefaultWorkloadCertificateSignerName) ''n1/wc1''))
       = [[]]
   \<and> fst (handleWorkloadCertificate (exController DefaultWorkloadCertificateSignerName) ''n1/wc1'') = None"
proof -
  let ?c = "exController DefaultWorkloadCertificateSignerName"
  let ?wc = "exRequest DefaultWorkloadCertificateSignerName ''system:node:node-a''"
  have h1: "SplitMetaNamespaceKey ?c ''n1/wc1'' = Inr (''n1'', ''wc1'')"
    by (simp add: exController_def)
  have h2: "wcLister_Get ?c ''n1'' ''wc1'' = Inr ?wc"
    by (simp add: exController_def)
  have h3: "Certificate (wcStatus ?wc) = []
            \<or> CertificateObservedGeneration (wcStatus ?wc) \<noteq> Generation (wcObjectMeta ?wc)"
    by (simp add: exRequest_def)
  have h4: "SignerName (Spec ?wc) = KubeAPIServerClientSignerName \<and> (''CA2'', ''KEY2'') = kubeAPIServerClientKeyPair ?c
            \<or> SignerName (Spec ?wc) = DefaultWorkloadCertificateSignerName
               \<and> (''CA2'', ''KEY2'') = defaultWorkloadCertificateKeyPair ?c"
    by (simp add: exRequest_def exController_def)
  have h5: "ParseCertsPEM ?c (fst (''CA2'', ''KEY2'')) = Inr [''ca2'']"
    by (simp add: exController_def)
  have h6: "ParsePrivateKeyPEM ?c (snd (''CA2'', ''KEY2'')) = Inr ''KEY2''"
    by (simp add: exController_def)
  have h7: "ParsePublicKeysPEM ?c (PublicKey (Spec ?wc)) = ([''pk'', ''pk''], None)"
    by (simp add: exController_def exRequest_def)
  have h8: "(None :: error option) \<noteq> None \<or> length [''pk'', ''pk''] \<noteq> 1"
    by simp
  have upd: "kc_UpdateStatus ?c w = None" for w
    by (simp add: exController_def)
  have conds: "filter (\<lambda>cond. Type cond \<noteq> WorkloadCertificateFailed
                                \<and> Type cond \<noteq> WorkloadCertificatePending)
                 (Conditions (wcStatus ?wc))
               = [\<lparr>Type = ''Ready'', Status = ''False'', Reason = ''NotIssued'',
                    Message = [], ObservedGeneration = 1,
                    LastUpdateTime = 0, LastTransitionTime = 0\<rparr>]"
    by (simp add: exRequest_def WorkloadCertificateFailed_def WorkloadCertificatePending_def)
  have fields: "Certificate (wcStatus ?wc) = []" "Generation (wcObjectMeta ?wc) = 1"
    "SignerName (Spec ?wc) = DefaultWorkloadCertificateSignerName"
    by (simp_all add: exRequest_def)
  from bad_public_key_marks_failed[OF h1 h2 h3 h4 h5 h6 h7 h8]
  obtain w where w: "snd (handleWorkloadCertificate ?c ''n1/wc1'') = [w]
      \<and> Conditions (wcStatus w) =
           filter (\<lambda>cond. Type cond \<noteq> WorkloadCertificateFailed
                          \<and> Type cond \<noteq> WorkloadCertificatePending)
             (Conditions (wcStatus ?wc))
           @ [\<lparr>Type = WorkloadCertificateFailed, Status = ConditionTrue, Reason = ''BadPublicKey'',
                Message = ''Public key contained '' @ decimal (length [''pk'', ''pk'']) @ '' keys, wanted 1'',
                ObservedGeneration = Generation (wcObjectMeta ?wc),
                LastUpdateTime = zeroTime, LastTransitionTime = zeroTime\<rparr>]
      \<and> Certificate (wcStatus w) = Certificate (wcStatus ?wc)
      \<and> Spec w = Spec ?wc
      \<and> wcObjectMeta w = wcObjectMeta ?wc
      \<and> (fst (handleWorkloadCertificate ?c ''n1/wc1'') = None) = (kc_UpdateStatus ?c w = None)" ..
  then have "map (\<lambda>w. Conditions (wcStatus w)) (snd (handleWorkloadCertificate ?c ''n1/wc1''))
       = [[\<lparr>Type = ''Ready'', Status = ''False'', Reason = ''NotIssued'',
             Message = [], ObservedGeneration = 1,
             LastUpdateTime = 0, LastTransitionTime = 0\<rparr>,
            \<lparr>Type = ''Failed'', Status = ''True'', Reason = ''BadPublicKey'',
             Message = ''Public key contained 2 keys, wanted 1'', ObservedGeneration = 1,
             LastUpdateTime = 0, LastTransitionTime = 0\<rparr>]]
      \<and> map (\<lambda>w. Certificate (wcStatus w)) (snd (handleWorkloadCertificate ?c ''n1/wc1'')) = [[]]
      \<and> fst (handleWorkloadCertificate ?c ''n1/wc1'') = None"
    unfolding conds
    by (simp add: upd fields decimal_2 WorkloadCertificateFailed_def ConditionTrue_def zeroTime_def)
  with h1 h2 h5 h6 h7 fields show ?thesis
    by (simp add: exRequest_def)
qed

text \<open>
  Claim C5 as it is stated fails at two inputs. With the request of scenario E4 and an
  API server that answers the status update with a conflict, the reconcile returns an
  error, so that the key is retried. With a CA file that holds no certificate, the
  reconcile returns an error before it reads the public key, and writes nothing.
\<close>

theorem bad_public_key_reconcile_returns_error:
  "SignerName (Spec (exRequest DefaultWorkloadCertificateSignerName ''system:node:node-a''))
     = DefaultWorkloadCertificateSignerName
   \<and> wcLister_Get (exControllerConflict DefaultWorkloadCertificateSignerName) ''n1'' ''wc1''
       = Inr (exRequest DefaultWorkloadCertificateSignerName ''system:node:node-a'')
   \<and> ParsePublicKeysPEM (exControllerConflict DefaultWorkloadCertificateSignerName)
         (PublicKey (Spec (exRequest DefaultWorkloadCertificateSignerName ''system:node:node-a'')))
       = ([''pk'', ''pk''], None)
   \<and> fst (handleWorkloadCertificate (exControllerConflict DefaultWorkloadCertificateSignerName) ''n1/wc1'')
       = Some (Errorf ''while issuing certificate for kubernetes.io/default-workload-certificate: while marking WorkloadCertificate failed: while updating status: conflict'')
   \<and> handleWorkloadCertificate (exControllerNoCA KubeAPIServerClientSignerName) ''n1/wc1''
       = (Some (Errorf ''while issuing certificate for kubernetes.io/kube-apiserver-client: while reading CA certificate file: data does not contain any valid RSA or ECDSA certificates''), [])"
  by (simp add: handleWorkloadCertificate_def issueDefaultWorkloadCertificate_def
        issueKubeAPIServerClientCert_def issueWith_def setWCFailed_def wrapErr_def
        exControllerConflict_def exControllerNoCA_def exController_def exRequest_def
        DefaultWorkloadCertificateSignerName_def KubeAPIServerClientSignerName_def Let_def)

section \<open>Admission: the requester of a workload certificate\<close>

lemma TrimPrefix_eq: "TrimPrefix str pre = node \<Longrightarrow> str = node \<or> str = pre @ node"
  by (auto simp: TrimPrefix_def split: if_splits) (metis append_take_drop_id)

lemma wcrestriction_Validate_requester:
  assumes "wcrestriction_Validate p a = None" and "enabled p"
    and "attrResource a = workloadCertificateGroupResource"
    and "attrObject a = WorkloadCertificateObject newWC"
  shows "Requester (Spec newWC) = Node (Spec newWC)
         \<or> Requester (Spec newWC) = ''system:node:'' @ Node (Spec newWC)"
proof -
  from assms have "wcrestriction_nodeRestriction p a newWC = None"
    by (simp add: wcrestriction_Validate_def split: if_splits)
  then have "TrimPrefix (Requester (Spec newWC)) ''system:node:'' = Node (Spec newWC)"
    by (simp add: wcrestriction_nodeRestriction_def split: sum.splits if_splits)
  then show ?thesis by (rule TrimPrefix_eq)
qed

text \<open>
  Claim C1. The validator is enabled and admits the update of a request for pod \<open>n1/p1\<close>
  on node \<open>node-a\<close> by the user \<open>node-a\<close>, whose requester is the string \<open>node-a\<close>: the
  requester is not \<open>system:node:node-a\<close>, and the object is not forbidden.
  \<open>strings.TrimPrefix\<close> leaves a requester without the prefix as it is, and the comparison
  with the node then succeeds.
\<close>

theorem requester_without_prefix_is_admitted:
  "enabled exPlugin
   \<and> attrObject (exUpdate ''node-a'' ''node-a'')
       = WorkloadCertificateObject (exRequest DefaultWorkloadCertificateSignerName ''node-a'')
   \<and> Requester (Spec (exRequest DefaultWorkloadCertificateSignerName ''node-a'')) = ''node-a''
   \<and> ''system:node:'' @ Node (Spec (exRequest DefaultWorkloadCertificateSignerName ''node-a''))
       = ''system:node:node-a''
   \<and> wcrestriction_Validate exPlugin (exUpdate ''node-a'' ''node-a'') = None"
  by (simp add: wcrestriction_Validate_def wcrestriction_nodeRestriction_def TrimPrefix_def
        exPlugin_def exUpdate_def exRequest_def workloadCertificateGroupResource_def)

section \<open>Admission: entrusting a trust bundle\<close>

lemma entrusting_Validate_create:
  assumes "attrResource a = clusterTrustBundleGroupResource"
    and "attrObject a = ClusterTrustBundleObject newBundle"
    and "attrOperation a = Create"
    and "ctbSignerName (ctbSpec newBundle) \<noteq> []"
  shows "(entrusting_Validate authorized a = None)
           = authorized (attrUserInfo a) ''entrust'' (ctbSignerName (ctbSpec newBundle))"
  using assms by (simp add: entrusting_Validate_def entrusting_checkUpdate_def)

lemma entrusting_Validate_empty_signer:
  assumes "attrResource a = clusterTrustBundleGroupResource"
    and "attrObject a = ClusterTrustBundleObject newBundle"
    and "attrOperation a = Create"
    and "ctbSignerName (ctbSpec newBundle) = []"
  shows "entrusting_Validate authorized a = None"
  using assms by (simp add: entrusting_Validate_def entrusting_checkUpdate_def)

text \<open>
  Claim C3. The plugin asks for the verb \<open>entrust\<close>, not \<open>attest\<close>. The creation of a bundle
  for signer \<open>example.com/foo\<close> by a user who holds \<open>attest\<close> on that signer and nothing else
  is forbidden, and the creation by a user who holds \<open>entrust\<close> and not \<open>attest\<close> is admitted.
\<close>

theorem entrusting_asks_for_entrust:
  "entrusting_Validate (\<lambda>user verb signerName. verb = ''attest'') (exCreateBundle ''example.com/foo'')
     = Some (StatusForbidden (''user not permitted to entrust signerName '' @ quoted ''example.com/foo''))
   \<and> entrusting_Validate (\<lambda>user verb signerName. verb = ''entrust'') (exCreateBundle ''example.com/foo'')
     = None"
  by (simp add: entrusting_Validate_def entrusting_checkUpdate_def exCreateBundle_def exBundle_def
        clusterTrustBundleGroupResource_def NewForbidden_def)

section \<open>Workload-certificate manager: the hash of the key file\<close>

lemma GetWorkloadCertificate_ignores_keyFileHash:
  "GetWorkloadCertificate m signerName namespace podName podUID volumeName sourceIndex keyFileHash
   = GetWorkloadCertificate m signerName namespace podName podUID volumeName sourceIndex keyFileHash'"
  by (simp add: GetWorkloadCertificate_def Let_def split: sum.split)

lemma decimalInt_0: "decimalInt 0 = ''0''"
  by code_simp

text \<open>
  Claim C7. The cache holds the request \<open>n1/kubelet-p1-vol-0\<close>, issued, whose annotation is
  the hash \<open>aGFzaDE=\<close>; it is 10 hours and the refresh time is 18 hours. Called with the
  hash \<open>b3RoZXI=\<close> of another key file, \<open>GetWorkloadCertificate\<close> makes no call to the API
  server and returns an empty private key with the certificate of the cache: it does not
  re-key.
\<close>

theorem hash_mismatch_does_not_rekey:
  "wcLister_GetAt exManager 0 ''n1'' ''kubelet-p1-vol-0'' = Inr exIssued
   \<and> annotation (wcObjectMeta exIssued) keyFileHashAnnotation = ''aGFzaDE=''
   \<and> GetWorkloadCertificate exManager DefaultWorkloadCertificateSignerName ''n1'' ''p1'' ''u1'' ''vol'' 0
        ''b3RoZXI=''
       = (Some (Inr ([], ''CERTIFICATE 1'')), [])"
  by (simp add: GetWorkloadCertificate_def awaitAndReturn_def waitForWorkloadCertificateIssuance_def
        isWorkloadCertificateIssued_def annotation_def time_After_def decimalInt_0
        exManager_def exIssued_def Hour_def Minute_def Second_def)

section \<open>Trust bundles: the name of a bundle\<close>

text \<open>
  Claim C2. Validation on create accepts the bundle named \<open>foo\<close> of signer \<open>k8s.io/foo\<close>,
  whose name does not begin with \<open>k8s.io:foo:\<close>, and it accepts the bundle named
  \<open>k8s.io:foo:bar\<close> without a signer: the name function of the strategy is
  \<open>noRestrictionsOnName\<close>, and no other check reads the name.
\<close>

theorem validate_ignores_name_prefix:
  "fst (clustertrustbundle_Validate exValidators (exBundle ''foo'' ''k8s.io/foo'' exAnchorABC)) = []
   \<and> fst (clustertrustbundle_Validate exValidators (exBundle ''k8s.io:foo:bar'' [] exAnchorABC)) = []"
  by code_simp

section \<open>Trust-bundle manager: anchors by signer\<close>

lemma collectBlocks_eq:
  "collectBlocks rest trustAnchorSet = trustAnchorSet \<union> pemBytes ` set (pemBlocks rest)"
proof (induction rest trustAnchorSet rule: collectBlocks.induct)
  case (1 rest trustAnchorSet)
  obtain ob rest' where d: "pem_Decode rest = (ob, rest')" by (cases "pem_Decode rest")
  show ?case
  proof (cases ob)
    case None
    have "collectBlocks rest trustAnchorSet = trustAnchorSet"
      by (subst collectBlocks.simps) (simp add: d None)
    moreover have "pemBlocks rest = []"
      by (subst pemBlocks.simps) (simp add: d None)
    ultimately show ?thesis by simp
  next
    case (Some b)
    have "collectBlocks rest trustAnchorSet = collectBlocks rest' (insert (pemBytes b) trustAnchorSet)"
      by (subst collectBlocks.simps) (simp add: d Some)
    moreover have "pemBlocks rest = b # pemBlocks rest'"
      by (subst pemBlocks.simps) (simp add: d Some)
    moreover have "collectBlocks rest' (insert (pemBytes b) trustAnchorSet)
            = insert (pemBytes b) trustAnchorSet \<union> pemBytes ` set (pemBlocks rest')"
      using d Some by (intro "1.IH") simp_all
    ultimately show ?thesis by simp
  qed
qed

lemma collectBundles_eq:
  "collectBundles signerName ctbList trustAnchorSet =
     trustAnchorSet \<union> (\<Union>ctb \<in> {ctb \<in> set ctbList. ctbSignerName (ctbSpec ctb) = signerName}.
                          pemBytes ` set (pemBlocks (TrustBundle (ctbSpec ctb))))"
proof (induction ctbList arbitrary: trustAnchorSet)
  case Nil
  show ?case by simp
next
  case (Cons ctb ctbList)
  show ?case
  proof (cases "ctbSignerName (ctbSpec ctb) = signerName")
    case True
    then have "{c \<in> set (ctb # ctbList). ctbSignerName (ctbSpec c) = signerName}
                 = insert ctb {c \<in> set ctbList. ctbSignerName (ctbSpec c) = signerName}"
      by auto
    with True Cons.IH show ?thesis by (simp add: collectBlocks_eq Un_assoc)
  next
    case False
    then have "{c \<in> set (ctb # ctbList). ctbSignerName (ctbSpec c) = signerName}
                 = {c \<in> set ctbList. ctbSignerName (ctbSpec c) = signerName}"
      by auto
    with False Cons.IH show ?thesis by simp
  qed
qed

text \<open>
  Claim C8. Before the informer has synced, \<open>GetTrustAnchorsByName\<close> and
  \<open>GetTrustAnchorsBySigner\<close> both fail with the not-synced error. Once it has synced, and
  the label selector converts to a selector for which the lister returns the bundles
  \<open>ctbList\<close>, \<open>GetTrustAnchorsBySigner\<close> returns the concatenation of the CERTIFICATE
  blocks that encode, in sorted order and each once, the elements of this set of byte
  strings: the bytes of every PEM block of every listed bundle whose signer name is the
  argument.
\<close>

theorem trust_anchors_by_signer:
  "(\<not> ctbInformer_HasSynced m \<longrightarrow>
      GetTrustAnchorsByName m name = Inl (Errorf ''ClusterTrustBundle informer has not yet synced'')
      \<and> GetTrustAnchorsBySigner m signerName labelSelector
          = Inl (Errorf ''ClusterTrustBundle informer has not yet synced''))
   \<and> (ctbInformer_HasSynced m \<and> LabelSelectorAsSelector m labelSelector = Inr selector
       \<and> ctbLister_List m selector = Inr ctbList \<longrightarrow>
      GetTrustAnchorsBySigner m signerName labelSelector
        = Inr (concat (map (\<lambda>der. pem_EncodeToMemory
                                  \<lparr>pemType = ''CERTIFICATE'', pemHeaders = [], pemBytes = der\<rparr>)
                 (sorted_list_of_set
                    (\<Union>ctb \<in> {ctb \<in> set ctbList. ctbSignerName (ctbSpec ctb) = signerName}.
                         pemBytes ` set (pemBlocks (TrustBundle (ctbSpec ctb))))))))"
  by (simp add: GetTrustAnchorsByName_def GetTrustAnchorsBySigner_def encodeAnchors_def
        certificateBlock_def collectBundles_eq)

lemma exBundle_blocks:
  "pemBlocks (exAnchorXY @ exAnchorABC) = [certificateBlock ''xy'', certificateBlock ''abc'']"
  "pemBlocks exAnchorABC = [certificateBlock ''abc'']"
  by code_simp+

lemma ex_sorted_anchors: "sorted_list_of_set {''xy'', ''abc''} = [''abc'', ''xy'']"
  by code_simp

theorem trust_anchors_by_signer_witness:
  "GetTrustAnchorsByName (exBundleManager\<lparr>ctbInformer_HasSynced := False\<rparr>) ''example.com:foo:v1''
     = Inl (Errorf ''ClusterTrustBundle informer has not yet synced'')
   \<and> GetTrustAnchorsBySigner (exBundleManager\<lparr>ctbInformer_HasSynced := False\<rparr>) ''example.com/foo'' []
     = Inl (Errorf ''ClusterTrustBundle informer has not yet synced'')
   \<and> ctbInformer_HasSynced exBundleManager
   \<and> LabelSelectorAsSelector exBundleManager [] = Inr ''all''
   \<and> map (\<lambda>ctb. (ctbSignerName (ctbSpec ctb), TrustBundle (ctbSpec ctb)))
         (projr (ctbLister_List exBundleManager ''all''))
       = [(''example.com/foo'', exAnchorXY @ exAnchorABC),
          (''example.com/bar'', pem_EncodeToMemory (certificateBlock ''other'')),
          (''example.com/foo'', exAnchorABC)]
   \<and> GetTrustAnchorsBySigner exBundleManager ''example.com/foo'' [] = Inr (exAnchorABC @ exAnchorXY)"
proof -
  let ?off = "exBundleManager\<lparr>ctbInformer_HasSynced := False\<rparr>"
  let ?ctbList = "[exBundle ''example.com:foo:v1'' ''example.com/foo'' (exAnchorXY @ exAnchorABC),
                   exBundle ''example.com:bar:v1'' ''example.com/bar'' (pem_EncodeToMemory (certificateBlock ''other'')),
                   exBundle ''example.com:foo:v2'' ''example.com/foo'' exAnchorABC]"
  have off: "\<not> ctbInformer_HasSynced ?off" by (simp add: exBundleManager_def)
  have on: "ctbInformer_HasSynced exBundleManager" by (simp add: exBundleManager_def)
  have sel: "LabelSelectorAsSelector exBundleManager [] = Inr ''all''" by (simp add: exBundleManager_def)
  have lst: "ctbLister_List exBundleManager ''all'' = Inr ?ctbList" by (simp add: exBundleManager_def)
  let ?foo = "\<lambda>ctb. ctbSignerName (ctbSpec ctb) = ''example.com/foo''"
  have flt: "filter ?foo ?ctbList
               = [exBundle ''example.com:foo:v1'' ''example.com/foo'' (exAnchorXY @ exAnchorABC),
                  exBundle ''example.com:foo:v2'' ''example.com/foo'' exAnchorABC]"
    by (simp add: exBundle_def)
  have "(\<Union>ctb \<in> {ctb \<in> set ?ctbList. ?foo ctb}. pemBytes ` set (pemBlocks (TrustBundle (ctbSpec ctb))))
          = (\<Union>ctb \<in> set (filter ?foo ?ctbList). pemBytes ` set (pemBlocks (TrustBundle (ctbSpec ctb))))"
    by (simp only: set_filter)
  also have "\<dots> = pemBytes ` set (pemBlocks (exAnchorXY @ exAnchorABC)) \<union> pemBytes ` set (pemBlocks exAnchorABC)"
    unfolding flt by (simp add: exBundle_def)
  also have "\<dots> = {''xy'', ''abc''}"
    unfolding exBundle_blocks by (simp add: certificateBlock_def insert_commute)
  finally have anchors:
    "(\<Union>ctb \<in> {ctb \<in> set ?ctbList. ctbSignerName (ctbSpec ctb) = ''example.com/foo''}.
         pemBytes ` set (pemBlocks (TrustBundle (ctbSpec ctb)))) = {''xy'', ''abc''}" .
  from trust_anchors_by_signer[where m = ?off and name = "''example.com:foo:v1''"
         and signerName = "''example.com/foo''" and labelSelector = "[]"] off
  have "GetTrustAnchorsByName ?off ''example.com:foo:v1''
          = Inl (Errorf ''ClusterTrustBundle informer has not yet synced'')
        \<and> GetTrustAnchorsBySigner ?off ''example.com/foo'' []
          = Inl (Errorf ''ClusterTrustBundle informer has not yet synced'')"
    by simp
  moreover
  from trust_anchors_by_signer[where m = exBundleManager and labelSelector = "[]"
         and selector = "''all''" and ctbList = ?ctbList and signerName = "''example.com/foo''"] on sel lst
  have "GetTrustAnchorsBySigner exBundleManager ''example.com/foo'' []
        = Inr (concat (map (\<lambda>der. pem_EncodeToMemory
                                  \<lparr>pemType = ''CERTIFICATE'', pemHeaders = [], pemBytes = der\<rparr>)
                 (sorted_list_of_set
                    (\<Union>ctb \<in> {ctb \<in> set ?ctbList. ctbSignerName (ctbSpec ctb) = ''example.com/foo''}.
                         pemBytes ` set (pemBlocks (TrustBundle (ctbSpec ctb)))))))"
    by simp
  then have "GetTrustAnchorsBySigner exBundleManager ''example.com/foo'' [] = Inr (exAnchorABC @ exAnchorXY)"
    unfolding anchors ex_sorted_anchors
    by (simp add: exAnchorABC_def exAnchorXY_def certificateBlock_def)
  moreover have "map (\<lambda>ctb. (ctbSignerName (ctbSpec ctb), TrustBundle (ctbSpec ctb)))
         (projr (ctbLister_List exBundleManager ''all''))
       = [(''example.com/foo'', exAnchorXY @ exAnchorABC),
          (''example.com/bar'', pem_EncodeToMemory (certificateBlock ''other'')),
          (''example.com/foo'', exAnchorABC)]"
    by (simp add: lst exBundle_def)
  ultimately show ?thesis using on sel by simp
qed

section \<open>Registry strategy of ClusterTrustBundles: the normalizer is idempotent\<close>

subsection \<open>base64: decoding an encoding\<close>

text \<open>Every six-bit value has a character of the alphabet, which \<open>decodeMap\<close> reads back and
  which is none of the characters that \<open>encoding/pem\<close> treats specially.\<close>

lemma sextets: "list_all (\<lambda>v. decodeMap (encodeChar v) = Some v \<and> encodeChar v \<noteq> padChar
   \<and> encodeChar v \<noteq> newline \<and> encodeChar v \<noteq> carriageReturn \<and> encodeChar v \<noteq> CHR '':''
   \<and> encodeChar v \<noteq> CHR ''-'' \<and> encodeChar v \<noteq> CHR '' '' \<and> encodeChar v \<noteq> tab) [0..<64]"
  by code_simp

lemma sextet:
  assumes "v < 64"
  shows "decodeMap (encodeChar v) = Some v" and "encodeChar v \<noteq> padChar"
    and "encodeChar v \<noteq> newline" and "encodeChar v \<noteq> carriageReturn"
    and "encodeChar v \<noteq> CHR '':''" and "encodeChar v \<noteq> CHR ''-''"
    and "encodeChar v \<noteq> CHR '' ''" and "encodeChar v \<noteq> tab"
  using sextets assms by (simp_all add: list_all_iff)

lemma sextet_hi: "(n::nat) < 256 \<Longrightarrow> n div 4 < 64"
  by simp

lemma nibble_hi: "(n::nat) < 256 \<Longrightarrow> n div 16 < 16"
  by simp

lemma crumb_hi: "(n::nat) < 256 \<Longrightarrow> n div 64 < 4"
  by simp

lemma sextet_mid: "(a::nat) < 16 \<Longrightarrow> n mod 4 * 16 + a < 64"
proof -
  assume a: "a < 16"
  have "n mod 4 < 4" by simp
  then have "n mod 4 \<le> 3" by simp
  then have "n mod 4 * 16 \<le> 3 * 16" by (rule mult_le_mono1)
  with a show ?thesis by simp
qed

lemma sextet_low: "(a::nat) < 4 \<Longrightarrow> m mod 16 * 4 + a < 64"
proof -
  assume a: "a < 4"
  have "m mod 16 < 16" by simp
  then have "m mod 16 \<le> 15" by simp
  then have "m mod 16 * 4 \<le> 15 * 4" by (rule mult_le_mono1)
  with a show ?thesis by simp
qed

lemma quantum_byte1: "(a::nat) < 16 \<Longrightarrow> n div 4 * 4 + (n mod 4 * 16 + a) div 16 = n"
  by simp

lemma quantum_byte2: "(a::nat) < 16 \<Longrightarrow> (b::nat) < 4 \<Longrightarrow>
    (n mod 4 * 16 + a) mod 16 * 16 + (m mod 16 * 4 + b) div 4 = a * 16 + m mod 16"
  by simp

lemma quantum_byte3: "(b::nat) < 4 \<Longrightarrow> (m mod 16 * 4 + b) mod 4 * 64 + k mod 64 = b * 64 + k mod 64"
  by simp

lemma base64_roundtrip: "decodeQuanta (base64_Encode d) = Some d"
proof (induction d rule: base64_Encode.induct)
  case 1
  show ?case by simp
next
  case (2 a)
  have a: "(of_char a :: nat) < 256" by (rule nat_of_char_less_256)
  have s1: "(of_char a :: nat) div 4 < 64" using a by (rule sextet_hi)
  have s2: "(of_char a :: nat) mod 4 * 16 + 0 < 64" by (rule sextet_mid) simp
  have "byte1 (of_char a div 4) (of_char a mod 4 * 16) = a"
    using quantum_byte1[of 0 "of_char a"] by (simp add: byte1_def)
  with s1 s2 show ?case
    by (simp add: sextet padChar_def[symmetric])
next
  case (3 a b)
  have a: "(of_char a :: nat) < 256" and b: "(of_char b :: nat) < 256" by (rule nat_of_char_less_256)+
  let ?x = "of_char a div 4 :: nat" and ?y = "of_char a mod 4 * 16 + of_char b div 16 :: nat"
    and ?z = "of_char b mod 16 * 4 :: nat"
  have s1: "?x < 64" using a by (rule sextet_hi)
  have s2: "?y < 64" using nibble_hi[OF b] by (rule sextet_mid)
  have s3: "?z + 0 < 64" by (rule sextet_low) simp
  have b1: "byte1 ?x ?y = a"
    using quantum_byte1[OF nibble_hi[OF b], of "of_char a"] by (simp add: byte1_def)
  have "?y mod 16 * 16 + (?z + 0) div 4 = of_char b div 16 * 16 + of_char b mod 16"
    using nibble_hi[OF b] by (intro quantum_byte2) simp_all
  then have b2: "byte2 ?y ?z = b" by (simp add: byte2_def)
  from s1 s2 s3 b1 b2 show ?case
    by (simp add: sextet padChar_def[symmetric])
next
  case (4 a b c src)
  have a: "(of_char a :: nat) < 256" and b: "(of_char b :: nat) < 256" and c: "(of_char c :: nat) < 256"
    by (rule nat_of_char_less_256)+
  let ?x = "of_char a div 4 :: nat" and ?y = "of_char a mod 4 * 16 + of_char b div 16 :: nat"
    and ?z = "of_char b mod 16 * 4 + of_char c div 64 :: nat" and ?w = "of_char c mod 64 :: nat"
  have s1: "?x < 64" using a by (rule sextet_hi)
  have s2: "?y < 64" using nibble_hi[OF b] by (rule sextet_mid)
  have s3: "?z < 64" using crumb_hi[OF c] by (rule sextet_low)
  have s4: "?w < 64" by simp
  have b1: "byte1 ?x ?y = a"
    using quantum_byte1[OF nibble_hi[OF b], of "of_char a"] by (simp add: byte1_def)
  have "?y mod 16 * 16 + ?z div 4 = of_char b div 16 * 16 + of_char b mod 16"
    using nibble_hi[OF b] crumb_hi[OF c] by (rule quantum_byte2)
  then have b2: "byte2 ?y ?z = b" by (simp add: byte2_def)
  have "?z mod 4 * 64 + ?w = of_char c div 64 * 64 + of_char c mod 64"
    using crumb_hi[OF c] by (rule quantum_byte3)
  then have b3: "byte3 ?z ?w = c" by (simp add: byte3_def)
  from s1 s2 s3 s4 b1 b2 b3 4 show ?case
    by (simp add: sextet)
qed

lemma sextet_plain:
  "v < 64 \<Longrightarrow> encodeChar v \<notin> {newline, carriageReturn, CHR '':'', CHR ''-'', CHR '' '', tab}"
  by (simp add: sextet)

lemma padChar_plain: "padChar \<notin> {newline, carriageReturn, CHR '':'', CHR ''-'', CHR '' '', tab}"
  by (simp add: padChar_def newline_def carriageReturn_def tab_def)

lemma disjoint3: "x \<notin> S \<Longrightarrow> y \<notin> S \<Longrightarrow> z \<notin> S \<Longrightarrow> {x, y, z} \<inter> S = {}"
  by blast

lemma disjoint4: "x \<notin> S \<Longrightarrow> y \<notin> S \<Longrightarrow> z \<notin> S \<Longrightarrow> w \<notin> S \<Longrightarrow> {x, y, z, w} \<inter> S = {}"
  by blast

lemma disjoint4_Un: "x \<notin> S \<Longrightarrow> y \<notin> S \<Longrightarrow> z \<notin> S \<Longrightarrow> w \<notin> S \<Longrightarrow> B \<inter> S = {}
    \<Longrightarrow> ({x, y, z, w} \<union> B) \<inter> S = {}"
  by blast

lemma disjoint_notin: "A \<inter> S = {} \<Longrightarrow> c \<in> A \<Longrightarrow> c \<notin> S"
  by blast

lemma base64_Encode_chars:
  "set (base64_Encode d) \<inter> {newline, carriageReturn, CHR '':'', CHR ''-'', CHR '' '', tab} = {}"
proof (induction d rule: base64_Encode.induct)
  case 1
  show ?case by simp
next
  case (2 a)
  let ?S = "{newline, carriageReturn, CHR '':'', CHR ''-'', CHR '' '', tab}"
  have "(of_char a :: nat) div 4 < 64" by (rule sextet_hi) (rule nat_of_char_less_256)
  then have s1: "encodeChar (of_char a div 4) \<notin> ?S" by (rule sextet_plain)
  have "(of_char a :: nat) mod 4 * 16 < 64" using sextet_mid[of 0 "of_char a"] by simp
  then have s2: "encodeChar (of_char a mod 4 * 16) \<notin> ?S" by (rule sextet_plain)
  have e: "set (base64_Encode [a]) = {encodeChar (of_char a div 4), encodeChar (of_char a mod 4 * 16), padChar}"
    by simp
  show ?case unfolding e by (rule disjoint3[OF s1 s2 padChar_plain])
next
  case (3 a b)
  let ?S = "{newline, carriageReturn, CHR '':'', CHR ''-'', CHR '' '', tab}"
  have b: "(of_char b :: nat) < 256" by (rule nat_of_char_less_256)
  have "(of_char a :: nat) div 4 < 64" by (rule sextet_hi) (rule nat_of_char_less_256)
  then have s1: "encodeChar (of_char a div 4) \<notin> ?S" by (rule sextet_plain)
  have "(of_char a :: nat) mod 4 * 16 + of_char b div 16 < 64" using nibble_hi[OF b] by (rule sextet_mid)
  then have s2: "encodeChar (of_char a mod 4 * 16 + of_char b div 16) \<notin> ?S" by (rule sextet_plain)
  have "(of_char b :: nat) mod 16 * 4 < 64" using sextet_low[of 0 "of_char b"] by simp
  then have s3: "encodeChar (of_char b mod 16 * 4) \<notin> ?S" by (rule sextet_plain)
  have e: "set (base64_Encode [a, b]) = {encodeChar (of_char a div 4),
      encodeChar (of_char a mod 4 * 16 + of_char b div 16), encodeChar (of_char b mod 16 * 4), padChar}"
    by simp
  show ?case unfolding e by (rule disjoint4[OF s1 s2 s3 padChar_plain])
next
  case (4 a b c src)
  let ?S = "{newline, carriageReturn, CHR '':'', CHR ''-'', CHR '' '', tab}"
  have b: "(of_char b :: nat) < 256" and c: "(of_char c :: nat) < 256"
    by (rule nat_of_char_less_256)+
  have "(of_char a :: nat) div 4 < 64" by (rule sextet_hi) (rule nat_of_char_less_256)
  then have s1: "encodeChar (of_char a div 4) \<notin> ?S" by (rule sextet_plain)
  have "(of_char a :: nat) mod 4 * 16 + of_char b div 16 < 64" using nibble_hi[OF b] by (rule sextet_mid)
  then have s2: "encodeChar (of_char a mod 4 * 16 + of_char b div 16) \<notin> ?S" by (rule sextet_plain)
  have "(of_char b :: nat) mod 16 * 4 + of_char c div 64 < 64" using crumb_hi[OF c] by (rule sextet_low)
  then have s3: "encodeChar (of_char b mod 16 * 4 + of_char c div 64) \<notin> ?S" by (rule sextet_plain)
  have "(of_char c :: nat) mod 64 < 64" by simp
  then have s4: "encodeChar (of_char c mod 64) \<notin> ?S" by (rule sextet_plain)
  have e: "set (base64_Encode (a # b # c # src)) = {encodeChar (of_char a div 4),
      encodeChar (of_char a mod 4 * 16 + of_char b div 16),
      encodeChar (of_char b mod 16 * 4 + of_char c div 64), encodeChar (of_char c mod 64)}
      \<union> set (base64_Encode src)"
    by simp
  show ?case unfolding e by (rule disjoint4_Un[OF s1 s2 s3 s4 4])
qed

lemma base64_Encode_plain:
  assumes "c \<in> set (base64_Encode d)"
  shows "c \<noteq> newline" and "c \<noteq> carriageReturn" and "c \<noteq> CHR '':''" and "c \<noteq> CHR ''-''"
    and "c \<noteq> CHR '' ''" and "c \<noteq> tab"
proof -
  have "c \<notin> {newline, carriageReturn, CHR '':'', CHR ''-'', CHR '' '', tab}"
    using base64_Encode_chars[of d] assms by (rule disjoint_notin)
  then show "c \<noteq> newline" and "c \<noteq> carriageReturn" and "c \<noteq> CHR '':''" and "c \<noteq> CHR ''-''"
    and "c \<noteq> CHR '' ''" and "c \<noteq> tab" by simp_all
qed

lemma base64_Encode_empty: "(base64_Encode d = []) = (d = [])"
  by (cases d rule: base64_Encode.cases) simp_all

subsection \<open>Lines, headers and the END marker\<close>

lemma lineBreaker_Nil: "lineBreaker [] = []"
  by (simp add: lineBreaker.simps)

lemma lineBreaker_Cons: "b \<noteq> [] \<Longrightarrow> lineBreaker b = take 64 b @ newline # lineBreaker (drop 64 b)"
  by (subst lineBreaker.simps) (simp add: pemLineLength_def)

lemma lineBreaker_set: "set (lineBreaker b) \<subseteq> insert newline (set b)"
proof (induction b rule: lineBreaker.induct)
  case (1 b)
  show ?case
  proof (cases "b = []")
    case True
    then show ?thesis by (simp add: lineBreaker_Nil)
  next
    case False
    then have "set (lineBreaker (drop 64 b)) \<subseteq> insert newline (set (drop 64 b))"
      using 1 by (simp add: pemLineLength_def)
    moreover have "set (drop 64 b) \<subseteq> set b" by (rule set_drop_subset)
    moreover have "set (take 64 b) \<subseteq> set b" by (rule set_take_subset)
    ultimately show ?thesis unfolding lineBreaker_Cons[OF False] by auto
  qed
qed

lemma lineBreaker_filter:
  "newline \<notin> set b \<Longrightarrow> carriageReturn \<notin> set b \<Longrightarrow>
   filter (\<lambda>c. c \<noteq> newline \<and> c \<noteq> carriageReturn) (lineBreaker b) = b"
proof (induction b rule: lineBreaker.induct)
  case (1 b)
  show ?case
  proof (cases "b = []")
    case True
    then show ?thesis by (simp add: lineBreaker_Nil)
  next
    case False
    from "1.prems" have "newline \<notin> set (drop 64 b)" and "carriageReturn \<notin> set (drop 64 b)"
      by (auto dest: in_set_dropD)
    with 1 False
    have r: "filter (\<lambda>c. c \<noteq> newline \<and> c \<noteq> carriageReturn) (lineBreaker (drop 64 b)) = drop 64 b"
      by (simp add: pemLineLength_def)
    from "1.prems" have "\<forall>c \<in> set (take 64 b). c \<noteq> newline \<and> c \<noteq> carriageReturn"
      by (auto dest: in_set_takeD)
    then have t: "filter (\<lambda>c. c \<noteq> newline \<and> c \<noteq> carriageReturn) (take 64 b) = take 64 b"
      by (simp only: filter_id_conv)
    show ?thesis unfolding lineBreaker_Cons[OF False] by (simp add: r t)
  qed
qed

lemma lineBreaker_snoc: "b \<noteq> [] \<Longrightarrow> lineBreaker b = butlast (lineBreaker b) @ [newline]"
proof (induction b rule: lineBreaker.induct)
  case (1 b)
  show ?case
  proof (cases "drop 64 b = []")
    case True
    then show ?thesis unfolding lineBreaker_Cons[OF "1.prems"] by (simp add: lineBreaker_Nil butlast_append)
  next
    case False
    with 1 have r: "lineBreaker (drop 64 b) = butlast (lineBreaker (drop 64 b)) @ [newline]"
      by (simp add: pemLineLength_def)
    then have ne: "lineBreaker (drop 64 b) \<noteq> []" by auto
    have "butlast (take 64 b @ newline # lineBreaker (drop 64 b)) @ [newline]
        = take 64 b @ newline # (butlast (lineBreaker (drop 64 b)) @ [newline])"
      using ne by (simp add: butlast_append)
    with r show ?thesis unfolding lineBreaker_Cons[OF "1.prems"] by simp
  qed
qed

lemma bytes_IndexByte_append: "c \<notin> set L \<Longrightarrow> bytes_IndexByte (L @ c # X) c = Some (length L)"
  by (induction L) auto

lemma TrimRight_set: "set (TrimRight s cutset) \<subseteq> set s"
  by (auto simp: TrimRight_def dest: set_dropWhileD)

lemma getLine_line:
  assumes "newline \<notin> set L"
  shows "getLine (L @ newline # X)
       = (TrimRight (if L \<noteq> [] \<and> last L = carriageReturn then butlast L else L) [CHR '' '', tab], X)"
proof (cases "L = []")
  case True
  then show ?thesis by (simp add: getLine_def)
next
  case False
  then have "(L @ newline # X) ! (length L - 1) = last L"
    by (simp add: nth_append last_conv_nth)
  moreover have "take (length L - 1) (L @ newline # X) = butlast L"
    by (simp add: butlast_conv_take)
  ultimately show ?thesis using False
    by (simp add: getLine_def bytes_IndexByte_append[OF assms])
qed

lemma getLine_snd: "newline \<notin> set L \<Longrightarrow> snd (getLine (L @ newline # X)) = X"
  by (simp add: getLine_line)

lemma getLine_fst_set: "newline \<notin> set L \<Longrightarrow> set (fst (getLine (L @ newline # X))) \<subseteq> set L"
proof -
  assume n: "newline \<notin> set L"
  have "set (TrimRight (butlast L) [CHR '' '', tab]) \<subseteq> set L"
    using TrimRight_set[of "butlast L" "[CHR '' '', tab]"] by (blast dest: in_set_butlastD)
  with TrimRight_set[of L "[CHR '' '', tab]"] show ?thesis
    by (simp add: getLine_line[OF n])
qed

lemma bytes_Index_None: "c \<notin> set s \<Longrightarrow> bytes_Index s [c] = None"
  by (induction s) (auto simp: HasPrefix_def)

lemma readHeaders_stop:
  assumes "newline \<notin> set L" and "CHR '':'' \<notin> set L"
  shows "readHeaders (L @ newline # X) hs = Some (hs, L @ newline # X)"
proof -
  from assms(2) getLine_fst_set[OF assms(1), of X]
  have "CHR '':'' \<notin> set (fst (getLine (L @ newline # X)))" by blast
  then have "bytes_Cut (fst (getLine (L @ newline # X))) colon = None"
    by (simp add: bytes_Cut_def colon_def bytes_Index_None)
  then show ?thesis by (subst readHeaders.simps) simp
qed

lemma bytes_Index_pemEnd:
  "CHR ''-'' \<notin> set body \<Longrightarrow> bytes_Index (body @ pemEnd @ Y) pemEnd = Some (length body)"
proof (induction body)
  case Nil
  have "HasPrefix (pemEnd @ Y) pemEnd" by (simp add: HasPrefix_def)
  then show ?case by (cases "pemEnd @ Y") (simp_all add: pemEnd_def)
next
  case (Cons x body)
  have "\<not> HasPrefix (x # body @ pemEnd @ Y) pemEnd"
  proof (cases body)
    case Nil
    then show ?thesis by (simp add: HasPrefix_def pemEnd_def newline_def)
  next
    case (Cons y ys)
    with Cons.prems have "y \<noteq> CHR ''-''" by auto
    with Cons show ?thesis by (auto simp: HasPrefix_def pemEnd_def)
  qed
  with Cons show ?case by simp
qed

subsection \<open>\<open>pem.Decode\<close> on an encoded CERTIFICATE block\<close>

text \<open>\<open>pem.Decode\<close> reads a block written by \<open>pem.EncodeToMemory\<close> back, whatever follows it,
  also after a \<open>\n\<close>.\<close>

lemma pem_EncodeToMemory_certificateBlock:
  "pem_EncodeToMemory (certificateBlock d)
     = ''-----BEGIN CERTIFICATE-----'' @ newline # lineBreaker (base64_Encode d)
       @ ''-----END CERTIFICATE-----'' @ [newline]"
  by (simp add: pem_EncodeToMemory_def certificateBlock_def encodeHeaders_def pemStart_def
      pemEnd_def pemEndOfLine_def)

lemma getLine_typeLine: "getLine (''CERTIFICATE-----'' @ newline # X) = (''CERTIFICATE-----'', X)"
  using getLine_line[of "''CERTIFICATE-----''" X]
  by (simp add: newline_def carriageReturn_def TrimRight_def tab_def)

lemma getLine_typeLine_blank: "snd (getLine ('' CERTIFICATE-----'' @ newline # X)) = X"
  using getLine_snd[of "'' CERTIFICATE-----''" X]
  by (simp add: newline_def)

lemma getLine_empty_line: "getLine (newline # X) = ([], X)"
  using getLine_line[of "[]" X] by (simp add: TrimRight_def)

lemma decodeBody_empty:
  "decodeBody ''CERTIFICATE'' [] (''-----END CERTIFICATE-----'' @ newline # r)
     = Some (certificateBlock [], r)"
  using getLine_typeLine[of r] getLine_empty_line[of r]
  by (simp add: decodeBody_def HasPrefix_def HasSuffix_def pemEnd_def pemEndOfLine_def Let_def
      base64_Decode_def removeSpacesAndTabs_def certificateBlock_def)

lemma decodeBody_trailer:
  assumes np: "\<not> HasPrefix (body @ pemEnd @ ''CERTIFICATE-----'' @ newline # r) (tl pemEnd)"
    and ix: "bytes_Index (body @ pemEnd @ ''CERTIFICATE-----'' @ newline # r) pemEnd = Some (length body)"
    and dec: "base64_Decode (removeSpacesAndTabs body) = Some d"
  shows "decodeBody ''CERTIFICATE'' [] (body @ pemEnd @ ''CERTIFICATE-----'' @ newline # r)
     = Some (certificateBlock d, r)"
proof -
  let ?rest = "body @ pemEnd @ ''CERTIFICATE-----'' @ newline # r"
  have l: "length pemEnd = 10" by (simp add: pemEnd_def)
  have c: "(if length ([] :: (string \<times> string) list) = 0 \<and> HasPrefix ?rest (tl pemEnd)
            then Some (0, length pemEnd - 1)
            else map_option (\<lambda>i. (i, i + length pemEnd)) (bytes_Index ?rest pemEnd))
         = Some (length body, length body + length pemEnd)"
    using np ix by simp
  show ?thesis
    unfolding decodeBody_def c
    using getLine_empty_line[of r] getLine_typeLine_blank[of r]
    by (simp add: l pemEnd_def dec Let_def HasPrefix_def HasSuffix_def pemEndOfLine_def
        certificateBlock_def)
qed

lemma decodeBody_nonempty:
  assumes "d \<noteq> []"
  shows "decodeBody ''CERTIFICATE'' []
           (lineBreaker (base64_Encode d) @ ''-----END CERTIFICATE-----'' @ newline # r)
     = Some (certificateBlock d, r)"
proof -
  let ?b = "base64_Encode d"
  let ?body = "butlast (lineBreaker ?b)"
  from assms have ne: "?b \<noteq> []" by (simp add: base64_Encode_empty)
  have sn: "lineBreaker ?b = ?body @ [newline]" using ne by (rule lineBreaker_snoc)
  have sub: "set ?body \<subseteq> insert newline (set ?b)"
    using lineBreaker_set[of ?b] by (blast dest: in_set_butlastD)
  have dash: "CHR ''-'' \<notin> set ?body"
    using sub base64_Encode_plain(4)[of "CHR ''-''" d] by (auto simp: newline_def)
  have blank: "\<forall>c \<in> set ?body. c \<noteq> CHR '' '' \<and> c \<noteq> tab"
    using sub base64_Encode_plain(5,6)[of _ d] by (auto simp: newline_def tab_def)
  then have rm: "removeSpacesAndTabs ?body = ?body"
    unfolding removeSpacesAndTabs_def by (simp only: filter_id_conv)
  have "filter (\<lambda>c. c \<noteq> newline \<and> c \<noteq> carriageReturn) (?body @ [newline]) = ?b"
    unfolding sn[symmetric] using base64_Encode_plain(1,2)[of _ d] by (intro lineBreaker_filter) blast+
  then have "filter (\<lambda>c. c \<noteq> newline \<and> c \<noteq> carriageReturn) ?body = ?b" by simp
  then have dec: "base64_Decode (removeSpacesAndTabs ?body) = Some d"
    by (simp add: rm base64_Decode_def base64_roundtrip)
  have eq: "lineBreaker ?b @ ''-----END CERTIFICATE-----'' @ newline # r
          = ?body @ pemEnd @ ''CERTIFICATE-----'' @ newline # r"
    by (subst sn) (simp add: pemEnd_def)
  have ix: "bytes_Index (?body @ pemEnd @ ''CERTIFICATE-----'' @ newline # r) pemEnd = Some (length ?body)"
    using dash by (rule bytes_Index_pemEnd)
  obtain x xs where b: "?b = x # xs" using ne by (cases ?b) auto
  then have "x \<noteq> CHR ''-''" using base64_Encode_plain(4)[of x d] by simp
  moreover have "lineBreaker ?b = x # take 63 xs @ newline # lineBreaker (drop 64 ?b)"
    unfolding lineBreaker_Cons[OF ne] by (simp add: b)
  ultimately have "\<not> HasPrefix (lineBreaker ?b @ ''-----END CERTIFICATE-----'' @ newline # r) (tl pemEnd)"
    by (simp add: HasPrefix_def pemEnd_def)
  then have np: "\<not> HasPrefix (?body @ pemEnd @ ''CERTIFICATE-----'' @ newline # r) (tl pemEnd)"
    unfolding eq .
  show ?thesis unfolding eq using np ix dec by (rule decodeBody_trailer)
qed

lemma decodeBody_certificate:
  "decodeBody ''CERTIFICATE'' []
     (lineBreaker (base64_Encode d) @ ''-----END CERTIFICATE-----'' @ newline # r)
     = Some (certificateBlock d, r)"
proof (cases "d = []")
  case True
  then show ?thesis using decodeBody_empty[of r] by (simp add: lineBreaker_Nil)
next
  case False
  then show ?thesis by (rule decodeBody_nonempty)
qed

lemma readHeaders_certificate:
  "readHeaders (lineBreaker (base64_Encode d) @ ''-----END CERTIFICATE-----'' @ newline # r) []
     = Some ([], lineBreaker (base64_Encode d) @ ''-----END CERTIFICATE-----'' @ newline # r)"
proof (cases "d = []")
  case True
  have "readHeaders (''-----END CERTIFICATE-----'' @ newline # r) []
      = Some ([], ''-----END CERTIFICATE-----'' @ newline # r)"
    by (rule readHeaders_stop) (simp_all add: newline_def)
  with True show ?thesis by (simp add: lineBreaker_Nil)
next
  case False
  let ?b = "base64_Encode d"
  from False have ne: "?b \<noteq> []" by (simp add: base64_Encode_empty)
  have n: "newline \<notin> set (take 64 ?b)" using base64_Encode_plain(1)[of newline d]
    by (blast dest: in_set_takeD)
  have c: "CHR '':'' \<notin> set (take 64 ?b)" using base64_Encode_plain(3)[of "CHR '':''" d]
    by (blast dest: in_set_takeD)
  have "lineBreaker ?b @ ''-----END CERTIFICATE-----'' @ newline # r
      = take 64 ?b @ newline # (lineBreaker (drop 64 ?b) @ ''-----END CERTIFICATE-----'' @ newline # r)"
    unfolding lineBreaker_Cons[OF ne] by simp
  then show ?thesis using readHeaders_stop[OF n c] by simp
qed

lemma decodeLoop_certificate:
  assumes "afterStart rest = Some (''CERTIFICATE-----'' @ newline # lineBreaker (base64_Encode d)
             @ ''-----END CERTIFICATE-----'' @ newline # r)"
  shows "decodeLoop data rest = (Some (certificateBlock d), r)"
proof -
  have g: "getLine (''CERTIFICATE-----'' @ newline # lineBreaker (base64_Encode d)
             @ ''-----END CERTIFICATE-----'' @ newline # r)
         = (''CERTIFICATE-----'', lineBreaker (base64_Encode d)
             @ ''-----END CERTIFICATE-----'' @ newline # r)"
    by (rule getLine_typeLine)
  have s: "HasSuffix ''CERTIFICATE-----'' pemEndOfLine"
    by (simp add: HasSuffix_def pemEndOfLine_def)
  have t: "take (length ''CERTIFICATE-----'' - length pemEndOfLine) ''CERTIFICATE-----''
         = ''CERTIFICATE''"
    by (simp add: pemEndOfLine_def)
  show ?thesis
    by (subst decodeLoop.simps)
       (simp only: assms g s t readHeaders_certificate decodeBody_certificate option.case
          prod.case fst_conv snd_conv if_True)
qed

lemma afterStart_begin: "afterStart (''-----BEGIN '' @ X) = Some X"
  by (simp add: afterStart_def HasPrefix_def pemStart_def)

lemma afterStart_newline_begin: "afterStart (newline # ''-----BEGIN '' @ X) = Some X"
  by (simp add: afterStart_def HasPrefix_def pemStart_def bytes_Cut_def newline_def)

lemma pem_Decode_encoded:
  "pem_Decode (pem_EncodeToMemory (certificateBlock d) @ r) = (Some (certificateBlock d), r)"
  unfolding pem_Decode_def
  by (rule decodeLoop_certificate)
     (use afterStart_begin[of "''CERTIFICATE-----'' @ newline # lineBreaker (base64_Encode d)
             @ ''-----END CERTIFICATE-----'' @ newline # r"]
      in \<open>simp add: pem_EncodeToMemory_certificateBlock\<close>)

lemma pem_Decode_newline_encoded:
  "pem_Decode (newline # pem_EncodeToMemory (certificateBlock d) @ r) = (Some (certificateBlock d), r)"
  unfolding pem_Decode_def
  by (rule decodeLoop_certificate)
     (use afterStart_newline_begin[of "''CERTIFICATE-----'' @ newline # lineBreaker (base64_Encode d)
             @ ''-----END CERTIFICATE-----'' @ newline # r"]
      in \<open>simp add: pem_EncodeToMemory_certificateBlock\<close>)

subsection \<open>The normalizer on its own output\<close>

lemma pem_Decode_Nil: "pem_Decode [] = (None, [])"
  unfolding pem_Decode_def
  by (subst decodeLoop.simps) (simp add: afterStart_def HasPrefix_def pemStart_def bytes_Cut_def)

lemma Join_Cons: "Join (e # es) sep = e @ (if es = [] then [] else sep @ Join es sep)"
  by (cases es) simp_all

lemma normalizeLoop_encoded:
  "normalizeLoop (Some (certificateBlock d), rest) blockSet
     = normalizeLoop (pem_Decode rest) (insert (pem_EncodeToMemory (certificateBlock d)) blockSet)"
  by (simp add: certificateBlock_def)

lemma normalizeLoop_blocks:
  "normalizeLoop br blockSet = Inr result \<Longrightarrow>
   result \<subseteq> blockSet \<union> range (\<lambda>d. pem_EncodeToMemory (certificateBlock d))
   \<and> (finite blockSet \<longrightarrow> finite result)"
proof (induction br blockSet rule: normalizeLoop.induct)
  case (1 rest blockSet)
  then show ?case by auto
next
  case (2 b rest blockSet)
  from "2.prems" have t: "pemType b = ''CERTIFICATE''"
    and r: "normalizeLoop (pem_Decode rest)
              (insert (pem_EncodeToMemory (certificateBlock (pemBytes b))) blockSet) = Inr result"
    by (auto split: if_splits)
  from "2.IH"[OF _ r] t
  have "result \<subseteq> insert (pem_EncodeToMemory (certificateBlock (pemBytes b))) blockSet
                    \<union> range (\<lambda>d. pem_EncodeToMemory (certificateBlock d))"
    and "finite blockSet \<longrightarrow> finite result"
    by simp_all
  then show ?case by blast
qed

lemma normalizeLoop_Join:
  assumes "set es \<subseteq> range (\<lambda>d. pem_EncodeToMemory (certificateBlock d))"
  shows "normalizeLoop (pem_Decode (Join es [newline])) blockSet = Inr (blockSet \<union> set es)
       \<and> (es \<noteq> [] \<longrightarrow>
            normalizeLoop (pem_Decode (newline # Join es [newline])) blockSet = Inr (blockSet \<union> set es))"
  using assms
proof (induction es arbitrary: blockSet)
  case Nil
  show ?case by (simp add: pem_Decode_Nil)
next
  case (Cons e es)
  from Cons.prems obtain d where e: "e = pem_EncodeToMemory (certificateBlock d)" by auto
  from Cons.prems have sub: "set es \<subseteq> range (\<lambda>d. pem_EncodeToMemory (certificateBlock d))"
    by simp
  let ?t = "if es = [] then [] else newline # Join es [newline]"
  have j: "Join (e # es) [newline] = pem_EncodeToMemory (certificateBlock d) @ ?t"
    by (simp add: Join_Cons e)
  have tl: "normalizeLoop (pem_Decode ?t) (insert e blockSet) = Inr (blockSet \<union> set (e # es))"
  proof (cases "es = []")
    case True
    then show ?thesis by (simp add: pem_Decode_Nil)
  next
    case False
    with Cons.IH[OF sub, of "insert e blockSet"] show ?thesis by simp
  qed
  have "normalizeLoop (pem_Decode (Join (e # es) [newline])) blockSet = Inr (blockSet \<union> set (e # es))"
    unfolding j pem_Decode_encoded normalizeLoop_encoded using tl by (simp only: e)
  moreover
  have "normalizeLoop (pem_Decode (newline # Join (e # es) [newline])) blockSet
      = Inr (blockSet \<union> set (e # es))"
    unfolding j pem_Decode_newline_encoded normalizeLoop_encoded using tl by (simp only: e)
  ultimately show ?case by simp
qed

lemma normalizePEMTrustAnchors_loop:
  assumes "normalizePEMTrustAnchors input = Inr output"
  shows "\<exists>blockSet. normalizeLoop (pem_Decode input) {} = Inr blockSet
           \<and> output = Join (sorted_list_of_set blockSet) [newline]"
  using assms by (auto simp: normalizePEMTrustAnchors_def split: sum.splits)

text \<open>
  Claim C6. For every input on which \<open>normalizePEMTrustAnchors\<close> succeeds, the normalizer
  applied to its own output succeeds and gives that output again:
  normalize (normalize x) = normalize x. The output is the sorted list of the distinct
  re-encoded blocks, joined by \<open>\n\<close>; \<open>pem.Decode\<close> reads each of them back, the \<open>\n\<close>
  between two blocks is skipped on the way to the next BEGIN line, and the set of
  re-encoded blocks is the one the output was built from.
\<close>

theorem normalize_idempotent:
  assumes "normalizePEMTrustAnchors input = Inr output"
  shows "normalizePEMTrustAnchors output = Inr output"
proof -
  from normalizePEMTrustAnchors_loop[OF assms] obtain blockSet
    where l: "normalizeLoop (pem_Decode input) {} = Inr blockSet"
      and out: "output = Join (sorted_list_of_set blockSet) [newline]"
    by blast
  from normalizeLoop_blocks[OF l]
  have sub: "blockSet \<subseteq> range (\<lambda>d. pem_EncodeToMemory (certificateBlock d))"
    and fin: "finite blockSet"
    by simp_all
  from fin have s: "set (sorted_list_of_set blockSet) = blockSet" by simp
  from sub have "set (sorted_list_of_set blockSet) \<subseteq> range (\<lambda>d. pem_EncodeToMemory (certificateBlock d))"
    by (simp only: s)
  from normalizeLoop_Join[OF this, of "{}"]
  have "normalizeLoop (pem_Decode output) {} = Inr blockSet"
    by (simp add: out s)
  then show ?thesis by (simp add: normalizePEMTrustAnchors_def out)
qed

text \<open>
  The normalizer at an input with a repeated block, text between two blocks and the
  blocks out of order: the output has each block once, in sorted order, and is its own
  normal form.
\<close>

theorem normalize_idempotent_witness:
  "normalizePEMTrustAnchors (exAnchorXY @ ''garbage'' @ [newline] @ exAnchorABC @ exAnchorXY)
     = Inr (exAnchorABC @ [newline] @ exAnchorXY)
   \<and> normalizePEMTrustAnchors (exAnchorABC @ [newline] @ exAnchorXY)
     = Inr (exAnchorABC @ [newline] @ exAnchorXY)"
proof -
  have a: "normalizePEMTrustAnchors (exAnchorXY @ ''garbage'' @ [newline] @ exAnchorABC @ exAnchorXY)
     = Inr (exAnchorABC @ [newline] @ exAnchorXY)"
    by code_simp
  from normalize_idempotent[OF a] a show ?thesis by simp
qed

end
